theory Spec2Isabelle
  imports Complex_Main
begin

section \<open>Data model (the Prisma schema)\<close>

text \<open>
  Rows of the relational store, one record per Prisma model, with the columns the
  controllers read or write. Identifiers are the uuid strings of the schema. A JavaScript
  number (Prisma \<open>Float\<close>) is modelled as a real: rounding, NaN and the infinities of IEEE
  doubles are outside the model, so a result is stated with the program's own expression,
  one operation after the other, and no law of the reals regroups what the program
  computes step by step. Instants are milliseconds since the epoch. The
  \<open>createdAt\<close>/\<open>updatedAt\<close> columns of Portfolio and Asset, which no operation reads, are
  left out; \<open>MarketData.updatedAt\<close>, which the price cache reads, is kept.
\<close>

type_synonym ident = string

datatype AssetType = STOCK | ETF | CRYPTO | BOND | CASH | OTHER

datatype TransactionType = BUY | SELL | DIVIDEND | DEPOSIT | WITHDRAWAL | REBALANCE

record Portfolio =
  p_id :: ident
  p_userId :: ident
  p_name :: string
  p_description :: "string option"
  p_totalValue :: real
  p_cash :: real

record Asset =
  a_id :: ident
  a_portfolioId :: ident
  a_symbol :: string
  a_name :: string
  a_type :: AssetType
  a_quantity :: real
  a_purchasePrice :: real
  a_currentPrice :: real

record Transaction =
  t_id :: ident
  t_userId :: ident
  t_portfolioId :: ident
  t_assetId :: "ident option"
  t_type :: TransactionType
  t_quantity :: real
  t_price :: real
  t_totalAmount :: real
  t_timestamp :: int

record MarketData =
  m_id :: ident
  m_symbol :: string
  m_name :: string
  m_lastPrice :: real
  m_change :: real
  m_changePercent :: real
  m_updatedAt :: int

text \<open>
  What the socket.io server has been asked to send: the room addressed (\<open>io.emit\<close>
  addresses every connected socket), the event name and the payload.
\<close>

datatype room = Everyone | PortfolioRoom ident | UserRoom ident

datatype payload = PortfolioPayload Portfolio "Asset list" | MarketPayload MarketData

type_synonym emission = "room \<times> string \<times> payload"

text \<open>
  The state the operations act on: the four tables, the number of uuids handed out so
  far, the emissions made through socket.io, and the symbols for which a GET was sent to
  the quote provider, both in order.
\<close>

record state =
  portfolios :: "Portfolio list"
  assets :: "Asset list"
  transactions :: "Transaction list"
  marketData :: "MarketData list"
  minted :: nat
  emitted :: "emission list"
  requested :: "string list"

section \<open>The environment of one operation\<close>

text \<open>
  The body of the provider's answer: \<open>response.data['Global Quote']\<close> with its three
  text fields, each possibly absent. \<open>Threw\<close> is \<open>axios.get\<close> rejecting (network error
  or a non-2xx status); \<open>Data None\<close> is an answer without a \<open>Global Quote\<close> object.
\<close>

record quote =
  price05 :: "string option"
  change09 :: "string option"
  changePercent10 :: "string option"

datatype reply = Threw | Data "quote option"

text \<open>
  The clock (\<open>Date.now()\<close>, \<open>new Date()\<close> and the store's \<open>now()\<close> default, read as one
  instant per operation), the quote provider, JavaScript's \<open>parseFloat\<close> and the uuid
  generator of the store are parameters of the model.
\<close>

record env =
  now :: int
  provider :: "string \<Rightarrow> reply"
  parseFloat :: "string \<Rightarrow> real"
  uuid :: "nat \<Rightarrow> ident"

datatype exn = AxiosError | TypeError | NoMarketPrice | InvalidDataFormat | PrismaError

datatype 'a response = Failure nat string | Success nat 'a

section \<open>JavaScript truthiness\<close>

text \<open>
  A text value is truthy when it is present and not empty, a number when it is present and
  not zero (NaN is outside the model). \<open>a || b\<close> on texts is \<open>orElse\<close>.
\<close>

fun truthyText :: "string option \<Rightarrow> string option" where
  "truthyText None = None"
| "truthyText (Some t) = (if t = [] then None else Some t)"

fun truthyNumber :: "real option \<Rightarrow> real option" where
  "truthyNumber None = None"
| "truthyNumber (Some x) = (if x = 0 then None else Some x)"

definition orElse :: "string option \<Rightarrow> string \<Rightarrow> string" where
  "orElse v d = (case truthyText v of None \<Rightarrow> d | Some t \<Rightarrow> t)"

text \<open>\<open>String.prototype.replace\<close> with a one-character pattern: the first occurrence only.\<close>

fun replaceFirst :: "char \<Rightarrow> string \<Rightarrow> string" where
  "replaceFirst c [] = []"
| "replaceFirst c (x # xs) = (if x = c then xs else x # replaceFirst c xs)"

section \<open>Store operations (the Prisma client)\<close>

text \<open>
  \<open>update\<close> with a \<open>where: { id }\<close> changes the row of that primary key and returns it,
  and throws when there is none. \<open>create\<close> draws the next uuid.

  The schema's relation \<open>asset Asset? @relation(fields: [assetId], references: [id])\<close>
  of Transaction is a foreign key of the store. Creating a Transaction whose \<open>assetId\<close>
  names no Asset row throws; deleting an Asset sets the \<open>assetId\<close> of the transactions
  that refer to it to null, the referential action of an optional relation. The other
  references (user, portfolio) are to rows the controllers have read just before.
\<close>

definition updateRows :: "('r \<Rightarrow> bool) \<Rightarrow> ('r \<Rightarrow> 'r) \<Rightarrow> 'r list \<Rightarrow> 'r list" where
  "updateRows P f rows = map (\<lambda>r. if P r then f r else r) rows"

definition portfolio_findFirst :: "ident \<Rightarrow> ident \<Rightarrow> state \<Rightarrow> Portfolio option" where
  "portfolio_findFirst portfolioId userId s =
     find (\<lambda>p. p_id p = portfolioId \<and> p_userId p = userId) (portfolios s)"

definition portfolio_findUnique :: "ident \<Rightarrow> state \<Rightarrow> Portfolio option" where
  "portfolio_findUnique portfolioId s = find (\<lambda>p. p_id p = portfolioId) (portfolios s)"

definition portfolio_update ::
  "ident \<Rightarrow> (Portfolio \<Rightarrow> Portfolio) \<Rightarrow> state \<Rightarrow> exn + Portfolio \<times> state" where
  "portfolio_update portfolioId f s =
     (case find (\<lambda>p. p_id p = portfolioId) (portfolios s) of
        None \<Rightarrow> Inl PrismaError
      | Some p \<Rightarrow>
          Inr (f p, s\<lparr>portfolios := updateRows (\<lambda>r. p_id r = portfolioId) f (portfolios s)\<rparr>))"

definition asset_findFirst_symbol :: "ident \<Rightarrow> string \<Rightarrow> state \<Rightarrow> Asset option" where
  "asset_findFirst_symbol portfolioId symbol s =
     find (\<lambda>a. a_portfolioId a = portfolioId \<and> a_symbol a = symbol) (assets s)"

definition asset_findFirst_id :: "ident \<Rightarrow> ident \<Rightarrow> state \<Rightarrow> Asset option" where
  "asset_findFirst_id assetId portfolioId s =
     find (\<lambda>a. a_id a = assetId \<and> a_portfolioId a = portfolioId) (assets s)"

definition asset_findMany :: "ident \<Rightarrow> state \<Rightarrow> Asset list" where
  "asset_findMany portfolioId s = filter (\<lambda>a. a_portfolioId a = portfolioId) (assets s)"

definition asset_update :: "ident \<Rightarrow> (Asset \<Rightarrow> Asset) \<Rightarrow> state \<Rightarrow> exn + Asset \<times> state" where
  "asset_update assetId f s =
     (case find (\<lambda>a. a_id a = assetId) (assets s) of
        None \<Rightarrow> Inl PrismaError
      | Some a \<Rightarrow> Inr (f a, s\<lparr>assets := updateRows (\<lambda>r. a_id r = assetId) f (assets s)\<rparr>))"

definition asset_delete :: "ident \<Rightarrow> state \<Rightarrow> exn + state" where
  "asset_delete assetId s =
     (case find (\<lambda>a. a_id a = assetId) (assets s) of
        None \<Rightarrow> Inl PrismaError
      | Some a \<Rightarrow>
          Inr (s\<lparr>assets := filter (\<lambda>r. a_id r \<noteq> assetId) (assets s),
                 transactions := updateRows (\<lambda>t. t_assetId t = Some assetId)
                                   (\<lambda>t. t\<lparr>t_assetId := None\<rparr>) (transactions s)\<rparr>))"

definition asset_create ::
  "env \<Rightarrow> string \<Rightarrow> string \<Rightarrow> AssetType \<Rightarrow> real \<Rightarrow> real \<Rightarrow> real \<Rightarrow> ident \<Rightarrow> state
     \<Rightarrow> Asset \<times> state" where
  "asset_create e symbol name ty quantity purchasePrice currentPrice portfolioId s =
     (let a = \<lparr>a_id = uuid e (minted s), a_portfolioId = portfolioId, a_symbol = symbol,
                a_name = name, a_type = ty, a_quantity = quantity,
                a_purchasePrice = purchasePrice, a_currentPrice = currentPrice\<rparr>
      in (a, s\<lparr>assets := assets s @ [a], minted := Suc (minted s)\<rparr>))"

definition transaction_create ::
  "env \<Rightarrow> TransactionType \<Rightarrow> real \<Rightarrow> real \<Rightarrow> real \<Rightarrow> ident \<Rightarrow> ident \<Rightarrow> ident option \<Rightarrow> state
     \<Rightarrow> exn + Transaction \<times> state" where
  "transaction_create e ty quantity price totalAmount userId portfolioId assetId s =
     (if (case assetId of
            None \<Rightarrow> False
          | Some a \<Rightarrow> find (\<lambda>r. a_id r = a) (assets s) = None)
      then Inl PrismaError
      else
        (let t = \<lparr>t_id = uuid e (minted s), t_userId = userId, t_portfolioId = portfolioId,
                   t_assetId = assetId, t_type = ty, t_quantity = quantity, t_price = price,
                   t_totalAmount = totalAmount, t_timestamp = now e\<rparr>
         in Inr (t, s\<lparr>transactions := transactions s @ [t], minted := Suc (minted s)\<rparr>)))"

definition marketData_findUnique :: "string \<Rightarrow> state \<Rightarrow> MarketData option" where
  "marketData_findUnique symbol s = find (\<lambda>m. m_symbol m = symbol) (marketData s)"

text \<open>
  \<open>upsert\<close> keyed by the unique symbol. The update branch sets \<open>updatedAt: new Date()\<close>;
  the create branch leaves it to the schema's \<open>@default(now())\<close>.
\<close>

definition marketData_upsert ::
  "env \<Rightarrow> string \<Rightarrow> real \<Rightarrow> real \<Rightarrow> real \<Rightarrow> state \<Rightarrow> MarketData \<times> state" where
  "marketData_upsert e symbol price chg pct s =
     (case find (\<lambda>m. m_symbol m = symbol) (marketData s) of
        Some m \<Rightarrow>
          (let f = (\<lambda>r. r\<lparr>m_lastPrice := price, m_change := chg, m_changePercent := pct,
                           m_updatedAt := now e\<rparr>)
           in (f m, s\<lparr>marketData := updateRows (\<lambda>r. m_symbol r = symbol) f (marketData s)\<rparr>))
      | None \<Rightarrow>
          (let m = \<lparr>m_id = uuid e (minted s), m_symbol = symbol, m_name = symbol,
                     m_lastPrice = price, m_change = chg, m_changePercent = pct,
                     m_updatedAt = now e\<rparr>
           in (m, s\<lparr>marketData := marketData s @ [m], minted := Suc (minted s)\<rparr>)))"

section \<open>The socket.io handles\<close>

text \<open>
  The services reach the socket.io server through two names. marketDataService.ts imports
  \<open>io\<close> from \<open>'../app'\<close>, and app.ts exports \<open>app\<close> and \<open>httpServer\<close> only (its \<open>io\<close>
  is a local constant), so the imported binding is undefined. websocketService.ts reads
  \<open>global.io\<close>, which no file assigns. A call of a method on an undefined handle throws a
  TypeError; on a server it would record the emissions.
\<close>

definition app_io :: "unit option" where
  "app_io = None"

definition global_io :: "unit option" where
  "global_io = None"

definition emit :: "unit option \<Rightarrow> emission \<Rightarrow> state \<Rightarrow> exn + state" where
  "emit io sent s =
     (case io of
        None \<Rightarrow> Inl TypeError
      | Some server \<Rightarrow> Inr (s\<lparr>emitted := emitted s @ [sent]\<rparr>))"

section \<open>The price oracle: \<open>getMarketPrice\<close> (assetController.ts)\<close>

text \<open>
  The \<open>Global Quote\<close> of an answer together with its \<open>'05. price'\<close> text, when
  \<open>response.data\<close>, its \<open>Global Quote\<close> and that field are all truthy.
\<close>

fun pricedQuote :: "quote option \<Rightarrow> (quote \<times> string) option" where
  "pricedQuote None = None"
| "pricedQuote (Some q) = (case truthyText (price05 q) of None \<Rightarrow> None | Some txt \<Rightarrow> Some (q, txt))"

text \<open>
  The cached row is used when it is less than five minutes old. Otherwise one GET goes to
  the provider. If it rejects, the \<open>catch\<close> logs and rethrows. If the answer carries a
  price, the arguments of the upsert are evaluated (\<open>.replace\<close> on an absent
  \<open>'10. change percent'\<close> throws a TypeError before anything is written), the row is
  upserted and the parsed price returned. If the answer carries no price, the last known
  price is returned when a row exists, and an error is thrown when none does.
\<close>

definition getMarketPrice :: "env \<Rightarrow> string \<Rightarrow> state \<Rightarrow> (exn + real) \<times> state" where
  "getMarketPrice e symbol s =
     (let cached = marketData_findUnique symbol s in
      case (case cached of
              Some m \<Rightarrow> if now e - m_updatedAt m < 5 * 60 * 1000 then Some (m_lastPrice m) else None
            | None \<Rightarrow> None) of
        Some p \<Rightarrow> (Inr p, s)
      | None \<Rightarrow>
          (let s1 = s\<lparr>requested := requested s @ [symbol]\<rparr> in
           case provider e symbol of
             Threw \<Rightarrow> (Inl AxiosError, s1)
           | Data d \<Rightarrow>
               (case pricedQuote d of
                  Some (q, txt) \<Rightarrow>
                    (let price = parseFloat e txt in
                     case changePercent10 q of
                       None \<Rightarrow> (Inl TypeError, s1)
                     | Some pct \<Rightarrow>
                         (Inr price,
                          snd (marketData_upsert e symbol price
                                 (parseFloat e (orElse (change09 q) ''0''))
                                 (parseFloat e (orElse (Some (replaceFirst CHR ''%'' pct)) ''0''))
                                 s1)))
                | None \<Rightarrow>
                    (case cached of
                       Some m \<Rightarrow> (Inr (m_lastPrice m), s1)
                     | None \<Rightarrow> (Inl NoMarketPrice, s1)))))"

section \<open>The ledger: \<open>buyAsset\<close> and \<open>sellAsset\<close> (assetController.ts)\<close>

record buyRequest =
  b_user :: "ident option"
  b_portfolioId :: ident
  b_symbol :: "string option"
  b_name :: "string option"
  b_type :: "string option"
  b_quantity :: "real option"
  b_price :: "real option"

record sellRequest =
  s_user :: "ident option"
  s_portfolioId :: ident
  s_assetId :: ident
  s_quantity :: "real option"
  s_price :: "real option"

text \<open>The JSON body of a successful trade; \<open>None\<close> stands for \<open>null\<close>.\<close>

record trade =
  r_asset :: "Asset option"
  r_portfolio :: Portfolio
  r_transaction :: Transaction

definition assetTypeOf :: "string \<Rightarrow> AssetType option" where
  "assetTypeOf t =
     (if t = ''STOCK'' then Some STOCK else if t = ''ETF'' then Some ETF
      else if t = ''CRYPTO'' then Some CRYPTO else if t = ''BOND'' then Some BOND
      else if t = ''CASH'' then Some CASH else if t = ''OTHER'' then Some OTHER else None)"

text \<open>\<open>!quantity || quantity <= 0\<close> fails exactly for a present, positive quantity.\<close>

definition positiveQuantity :: "real option \<Rightarrow> real option" where
  "positiveQuantity q = (case truthyNumber q of None \<Rightarrow> None | Some x \<Rightarrow> if x \<le> 0 then None else Some x)"

text \<open>
  Lines 89 to 97 and 223 to 231: a falsy \<open>price\<close> (absent, or the number 0) is replaced by
  the oracle's answer; any exception of the oracle is caught there.
\<close>

definition resolvePrice :: "env \<Rightarrow> real option \<Rightarrow> string \<Rightarrow> state \<Rightarrow> (exn + real) \<times> state" where
  "resolvePrice e price symbol s =
     (case truthyNumber price of
        Some currentPrice \<Rightarrow> (Inr currentPrice, s)
      | None \<Rightarrow> getMarketPrice e symbol s)"

text \<open>
  The body of \<open>prisma.$transaction\<close> in \<open>buyAsset\<close>. An exception inside it (a row
  that is gone, a \<open>type\<close> that is no AssetType) rolls the unit back: the result is
  \<open>Inl\<close> and the caller keeps the state it had.
\<close>

definition buyTransaction ::
  "env \<Rightarrow> ident \<Rightarrow> ident \<Rightarrow> string \<Rightarrow> string option \<Rightarrow> string \<Rightarrow> real \<Rightarrow> real \<Rightarrow> real
     \<Rightarrow> Asset option \<Rightarrow> state \<Rightarrow> exn + trade \<times> state" where
  "buyTransaction e userId portfolioId symbol name ty quantity currentPrice totalCost
       existingAsset s =
     (case (case existingAsset of
              Some ex \<Rightarrow>
                (let newTotalCost = a_purchasePrice ex * a_quantity ex + totalCost;
                     newTotalQuantity = a_quantity ex + quantity;
                     newAveragePrice = newTotalCost / newTotalQuantity
                 in asset_update (a_id ex)
                      (\<lambda>a. a\<lparr>a_quantity := newTotalQuantity,
                              a_purchasePrice := newAveragePrice,
                              a_currentPrice := currentPrice\<rparr>) s)
            | None \<Rightarrow>
                (case assetTypeOf ty of
                   None \<Rightarrow> Inl PrismaError
                 | Some t \<Rightarrow>
                     Inr (asset_create e symbol (orElse name symbol) t quantity currentPrice
                            currentPrice portfolioId s))) of
        Inl x \<Rightarrow> Inl x
      | Inr (asset, s1) \<Rightarrow>
          (case portfolio_update portfolioId (\<lambda>p. p\<lparr>p_cash := p_cash p - totalCost\<rparr>) s1 of
             Inl x \<Rightarrow> Inl x
           | Inr (updatedPortfolio, s2) \<Rightarrow>
               (case transaction_create e BUY quantity currentPrice totalCost userId
                       portfolioId (Some (a_id asset)) s2 of
                  Inl x \<Rightarrow> Inl x
                | Inr (transaction, s3) \<Rightarrow>
                    Inr (\<lparr>r_asset = Some asset, r_portfolio = updatedPortfolio,
                          r_transaction = transaction\<rparr>, s3))))"

definition buyAsset :: "env \<Rightarrow> buyRequest \<Rightarrow> state \<Rightarrow> trade response \<times> state" where
  "buyAsset e req s =
     (case truthyText (b_user req) of
        None \<Rightarrow> (Failure 401 ''User not authenticated'', s)
      | Some userId \<Rightarrow>
     (case (truthyText (b_symbol req), truthyText (b_type req), positiveQuantity (b_quantity req)) of
        (Some symbol, Some ty, Some quantity) \<Rightarrow>
          (case portfolio_findFirst (b_portfolioId req) userId s of
             None \<Rightarrow> (Failure 404 ''Portfolio not found'', s)
           | Some portfolio \<Rightarrow>
               (case resolvePrice e (b_price req) symbol s of
                  (Inl x, s1) \<Rightarrow>
                    (Failure 400 ''Could not retrieve market price. Please provide a price.'', s1)
                | (Inr currentPrice, s1) \<Rightarrow>
                    (let totalCost = currentPrice * quantity in
                     if p_cash portfolio < totalCost
                     then (Failure 400 ''Insufficient cash in portfolio'', s1)
                     else
                       (let existingAsset = asset_findFirst_symbol (b_portfolioId req) symbol s1 in
                        case buyTransaction e userId (b_portfolioId req) symbol (b_name req) ty
                               quantity currentPrice totalCost existingAsset s1 of
                          Inl x \<Rightarrow> (Failure 500 ''Server error buying asset'', s1)
                        | Inr (result, s2) \<Rightarrow> (Success 200 result, s2)))))
      | _ \<Rightarrow> (Failure 400 ''Symbol, type, and positive quantity are required'', s)))"

text \<open>
  The body of \<open>prisma.$transaction\<close> in \<open>sellAsset\<close>. Selling the whole holding
  deletes the row and prepares a copy of it with quantity 0; selling a part decrements
  the quantity and sets the current price. The SELL record is then created with the
  \<open>assetId\<close> of the request: after a deletion that row is gone, the creation throws and
  the unit is rolled back.
\<close>

definition sellTransaction ::
  "env \<Rightarrow> ident \<Rightarrow> ident \<Rightarrow> ident \<Rightarrow> Asset \<Rightarrow> real \<Rightarrow> real \<Rightarrow> real \<Rightarrow> state
     \<Rightarrow> exn + trade \<times> state" where
  "sellTransaction e userId portfolioId assetId asset quantity currentPrice totalAmount s =
     (case (if a_quantity asset = quantity
            then (case asset_delete assetId s of
                    Inl x \<Rightarrow> Inl x
                  | Inr s1 \<Rightarrow> Inr (asset\<lparr>a_quantity := 0\<rparr>, s1))
            else asset_update assetId
                   (\<lambda>a. a\<lparr>a_quantity := a_quantity a - quantity,
                           a_currentPrice := currentPrice\<rparr>) s) of
        Inl x \<Rightarrow> Inl x
      | Inr (updatedAsset, s1) \<Rightarrow>
          (case portfolio_update portfolioId (\<lambda>p. p\<lparr>p_cash := p_cash p + totalAmount\<rparr>) s1 of
             Inl x \<Rightarrow> Inl x
           | Inr (updatedPortfolio, s2) \<Rightarrow>
               (case transaction_create e SELL quantity currentPrice totalAmount userId
                       portfolioId (Some assetId) s2 of
                  Inl x \<Rightarrow> Inl x
                | Inr (transaction, s3) \<Rightarrow>
                    Inr (\<lparr>r_asset = Some updatedAsset, r_portfolio = updatedPortfolio,
                          r_transaction = transaction\<rparr>, s3))))"

definition sellAsset :: "env \<Rightarrow> sellRequest \<Rightarrow> state \<Rightarrow> trade response \<times> state" where
  "sellAsset e req s =
     (case truthyText (s_user req) of
        None \<Rightarrow> (Failure 401 ''User not authenticated'', s)
      | Some userId \<Rightarrow>
     (case positiveQuantity (s_quantity req) of
        None \<Rightarrow> (Failure 400 ''Positive quantity is required'', s)
      | Some quantity \<Rightarrow>
     (case portfolio_findFirst (s_portfolioId req) userId s of
        None \<Rightarrow> (Failure 404 ''Portfolio not found'', s)
      | Some portfolio \<Rightarrow>
     (case asset_findFirst_id (s_assetId req) (s_portfolioId req) s of
        None \<Rightarrow> (Failure 404 ''Asset not found in portfolio'', s)
      | Some asset \<Rightarrow>
          if a_quantity asset < quantity
          then (Failure 400 ''Insufficient asset quantity'', s)
          else
            (case resolvePrice e (s_price req) (a_symbol asset) s of
               (Inl x, s1) \<Rightarrow>
                 (Failure 400 ''Could not retrieve market price. Please provide a price.'', s1)
             | (Inr currentPrice, s1) \<Rightarrow>
                 (let totalAmount = currentPrice * quantity in
                  case sellTransaction e userId (s_portfolioId req) (s_assetId req) asset
                         quantity currentPrice totalAmount s1 of
                    Inl x \<Rightarrow> (Failure 500 ''Server error selling asset'', s1)
                  | Inr (result, s2) \<Rightarrow> (Success 200 result, s2)))))))"

section \<open>Revaluation: \<open>updateAssetPrices\<close> (assetController.ts)\<close>





section \<open>Portfolio cash: \<open>createPortfolio\<close>, \<open>addCashToPortfolio\<close>, \<open>withdrawCashFromPortfolio\<close>\<close>

definition portfolio_create ::
  "env \<Rightarrow> string \<Rightarrow> string option \<Rightarrow> real \<Rightarrow> real \<Rightarrow> ident \<Rightarrow> state \<Rightarrow> Portfolio \<times> state" where
  "portfolio_create e name description cash totalValue userId s =
     (let p = \<lparr>p_id = uuid e (minted s), p_userId = userId, p_name = name,
                p_description = description, p_totalValue = totalValue, p_cash = cash\<rparr>
      in (p, s\<lparr>portfolios := portfolios s @ [p], minted := Suc (minted s)\<rparr>))"

record createRequest =
  c_user :: "ident option"
  c_name :: "string option"
  c_description :: "string option"
  c_cash :: "real option"

text \<open>\<open>cash || 0\<close>: an absent or zero \<open>cash\<close> is 0, any other number is taken as it is.\<close>

definition createPortfolio :: "env \<Rightarrow> createRequest \<Rightarrow> state \<Rightarrow> Portfolio response \<times> state" where
  "createPortfolio e req s =
     (case truthyText (c_user req) of
        None \<Rightarrow> (Failure 401 ''User not authenticated'', s)
      | Some userId \<Rightarrow>
     (case truthyText (c_name req) of
        None \<Rightarrow> (Failure 400 ''Portfolio name is required'', s)
      | Some name \<Rightarrow>
          (let cash = (case truthyNumber (c_cash req) of None \<Rightarrow> 0 | Some c \<Rightarrow> c);
               (newPortfolio, s1) =
                 portfolio_create e name (truthyText (c_description req)) cash cash userId s
           in if 0 < cash
              then (case transaction_create e DEPOSIT 1 cash cash userId
                           (p_id newPortfolio) None s1 of
                      Inl x \<Rightarrow> (Failure 500 ''Server error creating portfolio'', s1)
                    | Inr (deposit, s2) \<Rightarrow> (Success 201 newPortfolio, s2))
              else (Success 201 newPortfolio, s1))))"

definition addCashToPortfolio ::
  "env \<Rightarrow> ident option \<Rightarrow> ident \<Rightarrow> real option \<Rightarrow> state \<Rightarrow> Portfolio response \<times> state" where
  "addCashToPortfolio e user portfolioId amount s =
     (case truthyText user of
        None \<Rightarrow> (Failure 401 ''User not authenticated'', s)
      | Some userId \<Rightarrow>
     (case positiveQuantity amount of
        None \<Rightarrow> (Failure 400 ''Valid amount is required'', s)
      | Some amt \<Rightarrow>
     (case portfolio_findFirst portfolioId userId s of
        None \<Rightarrow> (Failure 404 ''Portfolio not found'', s)
      | Some portfolio \<Rightarrow>
          (case portfolio_update portfolioId
                  (\<lambda>p. p\<lparr>p_cash := p_cash p + amt, p_totalValue := p_totalValue p + amt\<rparr>) s of
             Inl x \<Rightarrow> (Failure 500 ''Server error adding cash'', s)
           | Inr (updatedPortfolio, s1) \<Rightarrow>
               (case transaction_create e DEPOSIT 1 amt amt userId portfolioId None s1 of
                  Inl x \<Rightarrow> (Failure 500 ''Server error adding cash'', s1)
                | Inr (deposit, s2) \<Rightarrow> (Success 200 updatedPortfolio, s2))))))"

definition withdrawCashFromPortfolio ::
  "env \<Rightarrow> ident option \<Rightarrow> ident \<Rightarrow> real option \<Rightarrow> state \<Rightarrow> Portfolio response \<times> state" where
  "withdrawCashFromPortfolio e user portfolioId amount s =
     (case truthyText user of
        None \<Rightarrow> (Failure 401 ''User not authenticated'', s)
      | Some userId \<Rightarrow>
     (case positiveQuantity amount of
        None \<Rightarrow> (Failure 400 ''Valid amount is required'', s)
      | Some amt \<Rightarrow>
     (case portfolio_findFirst portfolioId userId s of
        None \<Rightarrow> (Failure 404 ''Portfolio not found'', s)
      | Some portfolio \<Rightarrow>
          if p_cash portfolio < amt
          then (Failure 400 ''Insufficient cash balance'', s)
          else
            (case portfolio_update portfolioId
                    (\<lambda>p. p\<lparr>p_cash := p_cash p - amt, p_totalValue := p_totalValue p - amt\<rparr>) s of
               Inl x \<Rightarrow> (Failure 500 ''Server error withdrawing cash'', s)
             | Inr (updatedPortfolio, s1) \<Rightarrow>
                 (case transaction_create e WITHDRAWAL 1 amt amt userId portfolioId None s1 of
                    Inl x \<Rightarrow> (Failure 500 ''Server error withdrawing cash'', s1)
                  | Inr (withdrawal, s2) \<Rightarrow> (Success 200 updatedPortfolio, s2))))))"

section \<open>The price sync pass (marketDataService.ts)\<close>


text \<open>
  One request to the provider. A priced answer is upserted first; then the row is emitted
  through the imported \<open>io\<close>. Every exception reaches the \<open>catch\<close>, which logs and
  rethrows: the upsert that came before it stays.
\<close>

definition fetchMarketData :: "env \<Rightarrow> string \<Rightarrow> state \<Rightarrow> (exn + MarketData) \<times> state" where
  "fetchMarketData e symbol s =
     (let s1 = s\<lparr>requested := requested s @ [symbol]\<rparr> in
      case provider e symbol of
        Threw \<Rightarrow> (Inl AxiosError, s1)
      | Data d \<Rightarrow>
          (case pricedQuote d of
             Some (q, txt) \<Rightarrow>
               (let price = parseFloat e txt;
                    chg = parseFloat e (orElse (change09 q) ''0'')
                in case changePercent10 q of
                     None \<Rightarrow> (Inl TypeError, s1)
                   | Some pct \<Rightarrow>
                       (let changePercent =
                              parseFloat e (orElse (Some (replaceFirst CHR ''%'' pct)) ''0'');
                            (row, s2) = marketData_upsert e symbol price chg changePercent s1
                        in case emit app_io (Everyone, ''marketUpdate'', MarketPayload row) s2 of
                             Inl x \<Rightarrow> (Inl x, s2)
                           | Inr s3 \<Rightarrow> (Inr row, s3)))
           | None \<Rightarrow> (Inl InvalidDataFormat, s1)))"

text \<open>
  The \<open>for\<close> loop of \<open>fetchAllMarketData\<close>: a symbol whose fetch throws is logged and
  the loop goes on with the state that fetch left; after a fetch that returned, the row is
  pushed and the loop waits one second, which moves the clock.
\<close>

fun fetchLoop :: "env \<Rightarrow> string list \<Rightarrow> MarketData list \<Rightarrow> state \<Rightarrow> MarketData list \<times> state" where
  "fetchLoop e [] results s = (results, s)"
| "fetchLoop e (symbol # rest) results s =
     (case fetchMarketData e symbol s of
        (Inr row, s1) \<Rightarrow> fetchLoop (e\<lparr>now := now e + 1000\<rparr>) rest (results @ [row]) s1
      | (Inl x, s1) \<Rightarrow> fetchLoop e rest results s1)"


section \<open>The broadcaster: \<open>emitPortfolioUpdate\<close> (websocketService.ts)\<close>

text \<open>
  The portfolio is reloaded with its holdings and sent to the portfolio's room and then to
  the owning user's room through \<open>global.io\<close>. An exception is caught and logged, and what
  was done before it stays.
\<close>

definition emitPortfolioUpdate :: "ident \<Rightarrow> state \<Rightarrow> state" where
  "emitPortfolioUpdate portfolioId s =
     (case portfolio_findUnique portfolioId s of
        None \<Rightarrow> s
      | Some portfolio \<Rightarrow>
          (let body = PortfolioPayload portfolio (asset_findMany portfolioId s)
           in case emit global_io (PortfolioRoom portfolioId, ''portfolio:update'', body) s of
                Inl x \<Rightarrow> s
              | Inr s1 \<Rightarrow>
                  (case emit global_io
                          (UserRoom (p_userId portfolio), ''portfolio:update'', body) s1 of
                     Inl x \<Rightarrow> s1
                   | Inr s2 \<Rightarrow> s2)))"

section \<open>Sequences of requests and a running example\<close>

text \<open>
  Buy requests handled one after the other, each with the environment it runs in; the
  responses are collected in order.
\<close>

fun buyMany :: "(env \<times> buyRequest) list \<Rightarrow> state \<Rightarrow> trade response list \<times> state" where
  "buyMany [] s = ([], s)"
| "buyMany ((e, req) # rest) s =
     (let (r, s1) = buyAsset e req s;
          (rs, s2) = buyMany rest s1
      in (r # rs, s2))"

text \<open>
  The example the concrete checks run on: a provider that answers for XYZ, rejects for
  BAD and answers without a quote otherwise; user u1 owning portfolio p1 with cash 200.
\<close>

definition demoEnv :: env where
  "demoEnv =
     \<lparr>now = 1000000,
      provider = (\<lambda>symbol.
         if symbol = ''XYZ''
         then Data (Some \<lparr>price05 = Some ''25'', change09 = Some ''5'', changePercent10 = Some ''25%''\<rparr>)
         else if symbol = ''BAD'' then Threw else Data None),
      parseFloat = (\<lambda>t. if t = ''25'' then 25 else if t = ''5'' then 5 else 0),
      uuid = (\<lambda>n. CHR ''k'' # replicate n CHR ''i'')\<rparr>"

definition demoPortfolio :: Portfolio where
  "demoPortfolio =
     \<lparr>p_id = ''p1'', p_userId = ''u1'', p_name = ''main'', p_description = None,
      p_totalValue = 200, p_cash = 200\<rparr>"

definition demoState :: state where
  "demoState =
     \<lparr>portfolios = [demoPortfolio], assets = [], transactions = [], marketData = [],
      minted = 0, emitted = [], requested = []\<rparr>"

definition demoBuy :: "real \<Rightarrow> real \<Rightarrow> buyRequest" where
  "demoBuy quantity price =
     \<lparr>b_user = Some ''u1'', b_portfolioId = ''p1'', b_symbol = Some ''XYZ'', b_name = None,
      b_type = Some ''STOCK'', b_quantity = Some quantity, b_price = Some price\<rparr>"

definition demoSell :: "ident \<Rightarrow> real \<Rightarrow> real \<Rightarrow> sellRequest" where
  "demoSell assetId quantity price =
     \<lparr>s_user = Some ''u1'', s_portfolioId = ''p1'', s_assetId = assetId,
      s_quantity = Some quantity, s_price = Some price\<rparr>"

text \<open>
  The example continued: the holding, the transaction record and the state after user u1
  has bought 5 XYZ at 20, and the same after 2 more at 10.
\<close>

definition demoAsset :: Asset where
  "demoAsset =
     \<lparr>a_id = ''k'', a_portfolioId = ''p1'', a_symbol = ''XYZ'', a_name = ''XYZ'',
      a_type = STOCK, a_quantity = 5, a_purchasePrice = 20, a_currentPrice = 20\<rparr>"

definition demoBought :: Transaction where
  "demoBought =
     \<lparr>t_id = ''ki'', t_userId = ''u1'', t_portfolioId = ''p1'', t_assetId = Some ''k'',
      t_type = BUY, t_quantity = 5, t_price = 20, t_totalAmount = 100, t_timestamp = 1000000\<rparr>"

definition demoHeld :: state where
  "demoHeld =
     \<lparr>portfolios = [demoPortfolio\<lparr>p_cash := 100\<rparr>], assets = [demoAsset],
      transactions = [demoBought], marketData = [], minted = 2, emitted = [],
      requested = []\<rparr>"

definition demoBoughtMore :: Transaction where
  "demoBoughtMore =
     \<lparr>t_id = ''kii'', t_userId = ''u1'', t_portfolioId = ''p1'', t_assetId = Some ''k'',
      t_type = BUY, t_quantity = 2, t_price = 10, t_totalAmount = 20, t_timestamp = 1000000\<rparr>"

definition demoHeldMore :: state where
  "demoHeldMore =
     \<lparr>portfolios = [demoPortfolio\<lparr>p_cash := 80\<rparr>],
      assets = [demoAsset\<lparr>a_quantity := 7, a_purchasePrice := 120 / 7, a_currentPrice := 10\<rparr>],
      transactions = [demoBought, demoBoughtMore], marketData = [], minted = 3, emitted = [],
      requested = []\<rparr>"

text \<open>The same portfolio with cash 5000, for two buys of 10 XYZ at 100 and at 200.\<close>

definition demoRich :: state where
  "demoRich = demoState\<lparr>portfolios := [demoPortfolio\<lparr>p_cash := 5000\<rparr>]\<rparr>"

definition demoRichHeld :: state where
  "demoRichHeld =
     \<lparr>portfolios = [demoPortfolio\<lparr>p_cash := 4000\<rparr>],
      assets = [demoAsset\<lparr>a_quantity := 10, a_purchasePrice := 100, a_currentPrice := 100\<rparr>],
      transactions = [demoBought\<lparr>t_quantity := 10, t_price := 100, t_totalAmount := 1000\<rparr>],
      marketData = [], minted = 2, emitted = [], requested = []\<rparr>"

text \<open>The transaction record of selling 2 of the 5 XYZ at 25, and the state after it.\<close>

definition demoSold :: Transaction where
  "demoSold =
     \<lparr>t_id = ''kii'', t_userId = ''u1'', t_portfolioId = ''p1'', t_assetId = Some ''k'',
      t_type = SELL, t_quantity = 2, t_price = 25, t_totalAmount = 50, t_timestamp = 1000000\<rparr>"

definition demoSoldPart :: state where
  "demoSoldPart =
     \<lparr>portfolios = [demoPortfolio\<lparr>p_cash := 150\<rparr>],
      assets = [demoAsset\<lparr>a_quantity := 3, a_currentPrice := 25\<rparr>],
      transactions = [demoBought, demoSold], marketData = [], minted = 3, emitted = [],
      requested = []\<rparr>"

text \<open>A cached quote of price 20 for a symbol, refreshed \<open>age\<close> milliseconds ago.\<close>

definition demoQuote :: "string \<Rightarrow> int \<Rightarrow> MarketData" where
  "demoQuote symbol age =
     \<lparr>m_id = ''q'', m_symbol = symbol, m_name = symbol, m_lastPrice = 20, m_change = 1,
      m_changePercent = 5, m_updatedAt = 1000000 - age\<rparr>"

definition demoCached :: "string \<Rightarrow> int \<Rightarrow> state" where
  "demoCached symbol age = demoState\<lparr>marketData := [demoQuote symbol age]\<rparr>"

text \<open>
  The portfolio with cash 100 holding 2 BAD (last price 7) and the 5 XYZ (last price 20),
  with an empty price cache: a revaluation finds no price for BAD and 25 for XYZ.
\<close>

definition demoBadAsset :: Asset where
  "demoBadAsset =
     \<lparr>a_id = ''b'', a_portfolioId = ''p1'', a_symbol = ''BAD'', a_name = ''BAD'',
      a_type = STOCK, a_quantity = 2, a_purchasePrice = 6, a_currentPrice = 7\<rparr>"

definition demoTwo :: state where
  "demoTwo = demoHeld\<lparr>assets := [demoBadAsset, demoAsset]\<rparr>"


text \<open>
  The cache row that the provider's answer for XYZ makes, under the key \<open>k\<close>, and a state
  after the price oracle has asked for \<open>symbol\<close> and cached \<open>rows\<close>.
\<close>

definition demoFresh :: "ident \<Rightarrow> MarketData" where
  "demoFresh k =
     \<lparr>m_id = k, m_symbol = ''XYZ'', m_name = ''XYZ'', m_lastPrice = 25, m_change = 5,
      m_changePercent = 25, m_updatedAt = 1000000\<rparr>"

definition demoAsked :: "string \<Rightarrow> MarketData list \<Rightarrow> state \<Rightarrow> state" where
  "demoAsked symbol rows s =
     s\<lparr>marketData := rows, minted := minted s + length rows, requested := [symbol]\<rparr>"

section \<open>Facts about the store operations\<close>

text \<open>
  With unique keys, the first row that has the key and one more property is the first
  row that has the key.
\<close>

lemma find_conj_distinct:
  "distinct (map k rows) \<Longrightarrow> find (\<lambda>r. k r = i \<and> Q r) rows = Some r
     \<Longrightarrow> find (\<lambda>r. k r = i) rows = Some r"
proof (induction rows)
  case Nil
  then show ?case by simp
next
  case (Cons x rows)
  show ?case
  proof (cases "k x = i")
    case True
    show ?thesis
    proof (cases "Q x")
      case True
      with \<open>k x = i\<close> Cons.prems show ?thesis by simp
    next
      case False
      with Cons.prems have "find (\<lambda>r. k r = i \<and> Q r) rows = Some r" by simp
      then have "r \<in> set rows" "k r = i"
        by (auto simp: find_Some_iff)
      then have "k x \<in> k ` set rows" using \<open>k x = i\<close> by blast
      with Cons.prems(1) show ?thesis by simp
    qed
  next
    case False
    with Cons show ?thesis by simp
  qed
qed

text \<open>The price oracle writes the MarketData table only.\<close>

lemma getMarketPrice_tables:
  "portfolios (snd (getMarketPrice e symbol s)) = portfolios s"
  "assets (snd (getMarketPrice e symbol s)) = assets s"
  "transactions (snd (getMarketPrice e symbol s)) = transactions s"
  "emitted (snd (getMarketPrice e symbol s)) = emitted s"
  by (simp_all add: getMarketPrice_def marketData_upsert_def Let_def
        split: option.splits reply.splits prod.splits)

lemma resolvePrice_tables:
  "portfolios (snd (resolvePrice e price symbol s)) = portfolios s"
  "assets (snd (resolvePrice e price symbol s)) = assets s"
  "transactions (snd (resolvePrice e price symbol s)) = transactions s"
  "emitted (snd (resolvePrice e price symbol s)) = emitted s"
  by (simp_all add: resolvePrice_def getMarketPrice_tables split: option.splits)

lemma find_updateRows:
  "(\<And>r. k (f r) = k r) \<Longrightarrow>
   find (\<lambda>r. k r = i) (updateRows (\<lambda>r. k r = i) f rows) = map_option f (find (\<lambda>r. k r = i) rows)"
  by (induction rows) (simp_all add: updateRows_def)


lemma resolvePrice_snd:
  "resolvePrice e price symbol s = (r, s1) \<Longrightarrow>
     portfolios s1 = portfolios s \<and> assets s1 = assets s \<and> transactions s1 = transactions s
     \<and> emitted s1 = emitted s"
  using resolvePrice_tables [of e price symbol s] by simp

lemma positiveQuantity_Some: "positiveQuantity v = Some q \<Longrightarrow> v = Some q \<and> 0 < q"
  by (cases v) (auto simp: positiveQuantity_def split: if_splits)

lemma truthyNumber_Some: "truthyNumber v = Some x \<Longrightarrow> v = Some x \<and> x \<noteq> 0"
  by (cases v) (auto split: if_splits)

lemma resolvePrice_explicit:
  "resolvePrice e price symbol s = (Inr p, s1) \<Longrightarrow> truthyNumber price = None \<or> price = Some p"
  by (cases "truthyNumber price") (auto simp: resolvePrice_def dest: truthyNumber_Some)

lemma find_key_distinct:
  "distinct (map k rows) \<Longrightarrow> r \<in> set rows \<Longrightarrow> find (\<lambda>x. k x = k r) rows = Some r"
  by (induction rows) auto

lemma find_Some_mem: "find P rows = Some r \<Longrightarrow> r \<in> set rows \<and> P r"
  by (auto simp: find_Some_iff)

lemma find_map_preserved:
  "(\<And>r. P (g r) = P r) \<Longrightarrow> find P (map g rows) = map_option g (find P rows)"
  by (induction rows) simp_all

lemma find_filter_out: "find (\<lambda>r. k r = i \<and> Q r) (filter (\<lambda>r. k r \<noteq> i) rows) = None"
  by (induction rows) simp_all

lemma find_append_new: "find P rows = None \<Longrightarrow> P r \<Longrightarrow> find P (rows @ [r]) = Some r"
  by (induction rows) (auto split: if_splits)

lemma upsert_row:
  "marketData_findUnique symbol (snd (marketData_upsert e symbol price chg pct s)) =
     Some (fst (marketData_upsert e symbol price chg pct s))"
  "m_symbol (fst (marketData_upsert e symbol price chg pct s)) = symbol"
  "m_lastPrice (fst (marketData_upsert e symbol price chg pct s)) = price"
  "m_change (fst (marketData_upsert e symbol price chg pct s)) = chg"
  "m_changePercent (fst (marketData_upsert e symbol price chg pct s)) = pct"
  "m_updatedAt (fst (marketData_upsert e symbol price chg pct s)) = now e"
  "requested (snd (marketData_upsert e symbol price chg pct s)) = requested s"
proof -
  show "marketData_findUnique symbol (snd (marketData_upsert e symbol price chg pct s)) =
     Some (fst (marketData_upsert e symbol price chg pct s))"
  proof (cases "find (\<lambda>m. m_symbol m = symbol) (marketData s)")
    case None
    then show ?thesis
      by (simp add: marketData_upsert_def marketData_findUnique_def Let_def find_append_new)
  next
    case (Some m)
    then show ?thesis
      by (simp add: marketData_upsert_def marketData_findUnique_def Let_def find_updateRows)
  qed
  show "m_symbol (fst (marketData_upsert e symbol price chg pct s)) = symbol"
    by (auto simp: marketData_upsert_def Let_def find_Some_iff split: option.splits)
qed (simp_all add: marketData_upsert_def Let_def split: option.splits)



text \<open>Rows that a foreign-key check finds.\<close>

lemma find_append_hit: "P r \<Longrightarrow> \<exists>y. find P (rows @ [r]) = Some y"
  by (induction rows) auto

lemma find_updateRows_hit:
  "(\<And>r. k (f r) = k r) \<Longrightarrow> find (\<lambda>r. k r = i) rows = Some a
     \<Longrightarrow> \<exists>y. find (\<lambda>r. k r = i) (updateRows (\<lambda>r. k r = i) f rows) = Some y"
  by (simp add: find_updateRows)

lemma find_filter_gone: "find (\<lambda>r. k r = i) (filter (\<lambda>r. k r \<noteq> i) rows) = None"
  by (induction rows) simp_all




section \<open>Facts about the price oracle\<close>

text \<open>The cache test of the oracle: a row that is at least five minutes old, or no row.\<close>

lemma getMarketPrice_fresh:
  "marketData_findUnique symbol s = Some m \<Longrightarrow> now e - m_updatedAt m < 5 * 60 * 1000
     \<Longrightarrow> getMarketPrice e symbol s = (Inr (m_lastPrice m), s)"
  by (simp add: getMarketPrice_def)

lemma getMarketPrice_asks:
  assumes "case marketData_findUnique symbol s of
             None \<Rightarrow> True | Some m \<Rightarrow> 5 * 60 * 1000 \<le> now e - m_updatedAt m"
  shows "requested (snd (getMarketPrice e symbol s)) = requested s @ [symbol]"
  using assms
  by (auto simp: getMarketPrice_def Let_def upsert_row split: option.splits reply.splits)

lemma getMarketPrice_refreshes:
  assumes "case marketData_findUnique symbol s of
             None \<Rightarrow> True | Some m \<Rightarrow> 5 * 60 * 1000 \<le> now e - m_updatedAt m"
    and "provider e symbol = Data (Some q)" "truthyText (price05 q) = Some txt"
    and "changePercent10 q = Some pct"
  shows "getMarketPrice e symbol s =
           (Inr (parseFloat e txt),
            snd (marketData_upsert e symbol (parseFloat e txt)
                   (parseFloat e (orElse (change09 q) ''0''))
                   (parseFloat e (orElse (Some (replaceFirst CHR ''%'' pct)) ''0''))
                   (s\<lparr>requested := requested s @ [symbol]\<rparr>)))"
  using assms
  by (auto simp: getMarketPrice_def Let_def split: option.splits)

lemma getMarketPrice_throws:
  assumes "case marketData_findUnique symbol s of
             None \<Rightarrow> True | Some m \<Rightarrow> 5 * 60 * 1000 \<le> now e - m_updatedAt m"
    and "provider e symbol = Threw"
  shows "getMarketPrice e symbol s = (Inl AxiosError, s\<lparr>requested := requested s @ [symbol]\<rparr>)"
  using assms
  by (auto simp: getMarketPrice_def Let_def split: option.splits)

lemma getMarketPrice_no_price:
  assumes "provider e symbol = Data d" "pricedQuote d = None"
  shows "marketData_findUnique symbol s = Some m \<Longrightarrow> 5 * 60 * 1000 \<le> now e - m_updatedAt m \<Longrightarrow>
           getMarketPrice e symbol s = (Inr (m_lastPrice m), s\<lparr>requested := requested s @ [symbol]\<rparr>)"
    and "marketData_findUnique symbol s = None \<Longrightarrow>
           getMarketPrice e symbol s = (Inl NoMarketPrice, s\<lparr>requested := requested s @ [symbol]\<rparr>)"
  using assms
  by (auto simp: getMarketPrice_def Let_def split: option.splits)

section \<open>Facts about buying\<close>

text \<open>A buy that passes every check, into a portfolio without a holding of the symbol.\<close>

lemma buy_new_holding:
  assumes user: "truthyText (b_user req) = Some userId"
    and symbol: "truthyText (b_symbol req) = Some symbol"
    and ty: "truthyText (b_type req) = Some ty" "assetTypeOf ty = Some t"
    and quantity: "positiveQuantity (b_quantity req) = Some quantity"
    and portfolio: "portfolio_findFirst (b_portfolioId req) userId s = Some portfolio"
    and keys: "distinct (map p_id (portfolios s))"
    and price: "resolvePrice e (b_price req) symbol s = (Inr price, s1)"
    and funds: "price * quantity \<le> p_cash portfolio"
    and fresh: "asset_findFirst_symbol (b_portfolioId req) symbol s = None"
  shows "buyAsset e req s =
     (Success 200
        \<lparr>r_asset = Some
           \<lparr>a_id = uuid e (minted s1), a_portfolioId = b_portfolioId req, a_symbol = symbol,
            a_name = orElse (b_name req) symbol, a_type = t, a_quantity = quantity,
            a_purchasePrice = price, a_currentPrice = price\<rparr>,
         r_portfolio = portfolio\<lparr>p_cash := p_cash portfolio - price * quantity\<rparr>,
         r_transaction =
           \<lparr>t_id = uuid e (Suc (minted s1)), t_userId = userId,
            t_portfolioId = b_portfolioId req,
            t_assetId = Some (uuid e (minted s1)), t_type = BUY, t_quantity = quantity,
            t_price = price, t_totalAmount = price * quantity, t_timestamp = now e\<rparr>\<rparr>,
      s1\<lparr>assets := assets s @
           [\<lparr>a_id = uuid e (minted s1), a_portfolioId = b_portfolioId req, a_symbol = symbol,
             a_name = orElse (b_name req) symbol, a_type = t, a_quantity = quantity,
             a_purchasePrice = price, a_currentPrice = price\<rparr>],
         minted := Suc (Suc (minted s1)),
         portfolios := updateRows (\<lambda>r. p_id r = b_portfolioId req)
                         (\<lambda>p. p\<lparr>p_cash := p_cash p - price * quantity\<rparr>) (portfolios s),
         transactions := transactions s @
           [\<lparr>t_id = uuid e (Suc (minted s1)), t_userId = userId,
             t_portfolioId = b_portfolioId req,
             t_assetId = Some (uuid e (minted s1)), t_type = BUY, t_quantity = quantity,
             t_price = price, t_totalAmount = price * quantity, t_timestamp = now e\<rparr>]\<rparr>)"
proof -
  note same = resolvePrice_snd [OF price]
  have row: "find (\<lambda>p. p_id p = b_portfolioId req) (portfolios s) = Some portfolio"
    using find_conj_distinct [OF keys] portfolio same
    by (simp add: portfolio_findFirst_def)
  have none: "asset_findFirst_symbol (b_portfolioId req) symbol s1 = None"
    using fresh same by (simp add: asset_findFirst_symbol_def)
  have enough: "\<not> p_cash portfolio < price * quantity"
    using funds by simp
  show ?thesis
    unfolding buyAsset_def
    by (simp add: user symbol ty quantity portfolio price enough none buyTransaction_def
          asset_create_def portfolio_update_def transaction_create_def row same Let_def
          find_append_hit)
qed

text \<open>A buy that passes every check, into a portfolio that holds the symbol already.\<close>

lemma buy_existing_holding:
  assumes user: "truthyText (b_user req) = Some userId"
    and symbol: "truthyText (b_symbol req) = Some symbol"
    and ty: "truthyText (b_type req) = Some ty"
    and quantity: "positiveQuantity (b_quantity req) = Some quantity"
    and portfolio: "portfolio_findFirst (b_portfolioId req) userId s = Some portfolio"
    and keys: "distinct (map p_id (portfolios s))" "distinct (map a_id (assets s))"
    and price: "resolvePrice e (b_price req) symbol s = (Inr price, s1)"
    and funds: "price * quantity \<le> p_cash portfolio"
    and held: "asset_findFirst_symbol (b_portfolioId req) symbol s = Some ex"
  defines "merge \<equiv> (\<lambda>a. a\<lparr>a_quantity := a_quantity ex + quantity,
             a_purchasePrice := (a_purchasePrice ex * a_quantity ex + price * quantity)
                                  / (a_quantity ex + quantity),
             a_currentPrice := price\<rparr>)"
  shows "buyAsset e req s =
     (Success 200
        \<lparr>r_asset = Some (merge ex),
         r_portfolio = portfolio\<lparr>p_cash := p_cash portfolio - price * quantity\<rparr>,
         r_transaction =
           \<lparr>t_id = uuid e (minted s1), t_userId = userId,
            t_portfolioId = b_portfolioId req,
            t_assetId = Some (a_id ex), t_type = BUY, t_quantity = quantity,
            t_price = price, t_totalAmount = price * quantity, t_timestamp = now e\<rparr>\<rparr>,
      s1\<lparr>assets := updateRows (\<lambda>r. a_id r = a_id ex) merge (assets s),
         portfolios := updateRows (\<lambda>r. p_id r = b_portfolioId req)
                         (\<lambda>p. p\<lparr>p_cash := p_cash p - price * quantity\<rparr>) (portfolios s),
         transactions := transactions s @
           [\<lparr>t_id = uuid e (minted s1), t_userId = userId,
             t_portfolioId = b_portfolioId req,
             t_assetId = Some (a_id ex), t_type = BUY, t_quantity = quantity,
             t_price = price, t_totalAmount = price * quantity, t_timestamp = now e\<rparr>],
         minted := Suc (minted s1)\<rparr>)"
    and "asset_findFirst_symbol (b_portfolioId req) symbol
           (s1\<lparr>assets := updateRows (\<lambda>r. a_id r = a_id ex) merge (assets s)\<rparr>) = Some (merge ex)"
proof -
  note same = resolvePrice_snd [OF price]
  have row: "find (\<lambda>p. p_id p = b_portfolioId req) (portfolios s) = Some portfolio"
    using find_conj_distinct [OF keys(1)] portfolio
    by (simp add: portfolio_findFirst_def)
  have held1: "asset_findFirst_symbol (b_portfolioId req) symbol s1 = Some ex"
    using held same by (simp add: asset_findFirst_symbol_def)
  have "ex \<in> set (assets s)"
    using held find_Some_mem by (fastforce simp: asset_findFirst_symbol_def)
  then have arow: "find (\<lambda>a. a_id a = a_id ex) (assets s) = Some ex"
    using find_key_distinct [OF keys(2)] by simp
  have enough: "\<not> p_cash portfolio < price * quantity"
    using funds by simp
  show "buyAsset e req s =
     (Success 200
        \<lparr>r_asset = Some (merge ex),
         r_portfolio = portfolio\<lparr>p_cash := p_cash portfolio - price * quantity\<rparr>,
         r_transaction =
           \<lparr>t_id = uuid e (minted s1), t_userId = userId,
            t_portfolioId = b_portfolioId req,
            t_assetId = Some (a_id ex), t_type = BUY, t_quantity = quantity,
            t_price = price, t_totalAmount = price * quantity, t_timestamp = now e\<rparr>\<rparr>,
      s1\<lparr>assets := updateRows (\<lambda>r. a_id r = a_id ex) merge (assets s),
         portfolios := updateRows (\<lambda>r. p_id r = b_portfolioId req)
                         (\<lambda>p. p\<lparr>p_cash := p_cash p - price * quantity\<rparr>) (portfolios s),
         transactions := transactions s @
           [\<lparr>t_id = uuid e (minted s1), t_userId = userId,
             t_portfolioId = b_portfolioId req,
             t_assetId = Some (a_id ex), t_type = BUY, t_quantity = quantity,
             t_price = price, t_totalAmount = price * quantity, t_timestamp = now e\<rparr>],
         minted := Suc (minted s1)\<rparr>)"
    unfolding buyAsset_def
    by (simp add: user symbol ty quantity portfolio price enough held1 buyTransaction_def
          asset_update_def portfolio_update_def transaction_create_def row arow same Let_def
          merge_def find_updateRows_hit [OF _ arow])
  have "find (\<lambda>a. a_portfolioId a = b_portfolioId req \<and> a_symbol a = symbol)
          (map (\<lambda>r. if a_id r = a_id ex then merge r else r) (assets s))
        = map_option (\<lambda>r. if a_id r = a_id ex then merge r else r)
            (find (\<lambda>a. a_portfolioId a = b_portfolioId req \<and> a_symbol a = symbol) (assets s))"
    by (rule find_map_preserved) (simp add: merge_def)
  then show "asset_findFirst_symbol (b_portfolioId req) symbol
           (s1\<lparr>assets := updateRows (\<lambda>r. a_id r = a_id ex) merge (assets s)\<rparr>) = Some (merge ex)"
    using held by (simp add: asset_findFirst_symbol_def updateRows_def)
qed

text \<open>What the transaction body of a buy writes, whichever branch it takes.\<close>

lemma buyTransaction_effect:
  assumes "buyTransaction e userId portfolioId symbol name ty quantity currentPrice totalCost
             existingAsset s = Inr (result, s')"
  shows "portfolios s' = updateRows (\<lambda>r. p_id r = portfolioId)
                           (\<lambda>p. p\<lparr>p_cash := p_cash p - totalCost\<rparr>) (portfolios s)"
    and "transactions s' = transactions s @ [r_transaction result]"
    and "emitted s' = emitted s"
    and "t_type (r_transaction result) = BUY"
    and "t_quantity (r_transaction result) = quantity"
    and "t_price (r_transaction result) = currentPrice"
    and "t_totalAmount (r_transaction result) = totalCost"
  using assms
  by (auto simp: buyTransaction_def asset_update_def asset_create_def portfolio_update_def
        transaction_create_def Let_def split: option.splits sum.splits prod.splits if_splits)

text \<open>A buy is either rejected, leaving the ledger tables as they were, or ran its transaction body.\<close>

lemma buyAsset_cases:
  assumes "buyAsset e req s = (r, s')"
  obtains (rejected) c m where "r = Failure c m" "portfolios s' = portfolios s"
      "assets s' = assets s" "transactions s' = transactions s" "emitted s' = emitted s"
  | (accepted) userId symbol ty quantity portfolio currentPrice s1 result where
      "r = Success 200 result"
      "truthyText (b_user req) = Some userId" "truthyText (b_symbol req) = Some symbol"
      "truthyText (b_type req) = Some ty" "positiveQuantity (b_quantity req) = Some quantity"
      "portfolio_findFirst (b_portfolioId req) userId s = Some portfolio"
      "resolvePrice e (b_price req) symbol s = (Inr currentPrice, s1)"
      "currentPrice * quantity \<le> p_cash portfolio"
      "buyTransaction e userId (b_portfolioId req) symbol (b_name req) ty quantity currentPrice
         (currentPrice * quantity) (asset_findFirst_symbol (b_portfolioId req) symbol s1) s1
       = Inr (result, s')"
  using assms unfolding buyAsset_def
  by (auto simp: Let_def not_less split: option.splits sum.splits prod.splits if_splits
        dest: resolvePrice_snd)

lemma buy_accepted_step:
  assumes run: "buyAsset e req s = (Success c t, s')"
    and row: "portfolio_findUnique (b_portfolioId req) s = Some p0"
  shows "\<exists>p1. portfolio_findUnique (b_portfolioId req) s' = Some p1
            \<and> p_cash p1 = p_cash p0 - t_price (r_transaction t) * t_quantity (r_transaction t)"
    and "transactions s' = transactions s @ [r_transaction t]"
    and "b_quantity req = Some (t_quantity (r_transaction t))"
    and "truthyNumber (b_price req) = None \<or> b_price req = Some (t_price (r_transaction t))"
    and "t_type (r_transaction t) = BUY"
    and "t_totalAmount (r_transaction t) = t_price (r_transaction t) * t_quantity (r_transaction t)"
proof -
  from run obtain userId symbol ty quantity portfolio currentPrice s1 where
    q: "positiveQuantity (b_quantity req) = Some quantity"
    and p: "resolvePrice e (b_price req) symbol s = (Inr currentPrice, s1)"
    and tx: "buyTransaction e userId (b_portfolioId req) symbol (b_name req) ty quantity
               currentPrice (currentPrice * quantity)
               (asset_findFirst_symbol (b_portfolioId req) symbol s1) s1 = Inr (t, s')"
    by (cases rule: buyAsset_cases) auto
  note eff = buyTransaction_effect [OF tx]
  note same = resolvePrice_snd [OF p]
  have "portfolio_findUnique (b_portfolioId req) s' =
          map_option (\<lambda>p. p\<lparr>p_cash := p_cash p - currentPrice * quantity\<rparr>)
            (portfolio_findUnique (b_portfolioId req) s)"
    by (simp add: portfolio_findUnique_def eff(1) same find_updateRows)
  with row eff show "\<exists>p1. portfolio_findUnique (b_portfolioId req) s' = Some p1
            \<and> p_cash p1 = p_cash p0 - t_price (r_transaction t) * t_quantity (r_transaction t)"
    by simp
  show "transactions s' = transactions s @ [r_transaction t]"
    using eff same by simp
  show "b_quantity req = Some (t_quantity (r_transaction t))"
    using positiveQuantity_Some [OF q] eff by simp
  show "truthyNumber (b_price req) = None \<or> b_price req = Some (t_price (r_transaction t))"
    using resolvePrice_explicit [OF p] eff by simp
  show "t_type (r_transaction t) = BUY" using eff by simp
  show "t_totalAmount (r_transaction t) = t_price (r_transaction t) * t_quantity (r_transaction t)"
    using eff by simp
qed

text \<open>
  A run of accepted buys on one portfolio: the cash is decremented buy after buy, each
  time by price times quantity of that buy's transaction record.
\<close>

lemma buyMany_cash:
  assumes "\<forall>x\<in>set xs. b_portfolioId (snd x) = portfolioId"
    and "portfolio_findUnique portfolioId s = Some p0"
    and "buyMany xs s = (map (Success 200) ts, s')"
  shows "(\<exists>p1. portfolio_findUnique portfolioId s' = Some p1
           \<and> p_cash p1 =
               foldl (\<lambda>cash t. cash - t_price (r_transaction t) * t_quantity (r_transaction t))
                 (p_cash p0) ts)
    \<and> transactions s' = transactions s @ map r_transaction ts
    \<and> map (\<lambda>x. b_quantity (snd x)) xs = map (\<lambda>t. Some (t_quantity (r_transaction t))) ts"
  using assms
proof (induction xs arbitrary: s p0 ts)
  case Nil
  then show ?case by simp
next
  case (Cons x xs)
  obtain e req where x: "x = (e, req)" by (cases x)
  obtain r s1 where one: "buyAsset e req s = (r, s1)" by (cases "buyAsset e req s")
  obtain rs s2 where more: "buyMany xs s1 = (rs, s2)" by (cases "buyMany xs s1")
  have "buyMany (x # xs) s = (r # rs, s2)"
    using x one more by simp
  with Cons.prems(3) have "r # rs = map (Success 200) ts" and s2: "s2 = s'"
    by simp_all
  then obtain t ts' where ts: "ts = t # ts'" and r: "r = Success 200 t"
    and rs: "rs = map (Success 200) ts'"
    by (cases ts) auto
  from Cons.prems(1) x have pid: "b_portfolioId req = portfolioId"
    and rest: "\<forall>x\<in>set xs. b_portfolioId (snd x) = portfolioId"
    by simp_all
  note first = buy_accepted_step [OF one [unfolded r], unfolded pid, OF Cons.prems(2)]
  from first(1) obtain p1 where
    p1: "portfolio_findUnique portfolioId s1 = Some p1"
      "p_cash p1 = p_cash p0 - t_price (r_transaction t) * t_quantity (r_transaction t)"
    by auto
  note IH = Cons.IH [OF rest p1(1) more [unfolded rs s2]]
  from IH p1(2) first(2,3) ts x show ?case
    by auto
qed

section \<open>Facts about selling\<close>

text \<open>
  A sell of the whole holding that passes every check: the row is deleted, the SELL record
  cannot refer to it, and the unit is rolled back to the state the price lookup left.
\<close>

lemma sell_all_rolls_back:
  assumes user: "truthyText (s_user req) = Some userId"
    and quantity: "positiveQuantity (s_quantity req) = Some quantity"
    and portfolio: "portfolio_findFirst (s_portfolioId req) userId s = Some portfolio"
    and held: "asset_findFirst_id (s_assetId req) (s_portfolioId req) s = Some asset"
    and keys: "distinct (map p_id (portfolios s))" "distinct (map a_id (assets s))"
    and price: "resolvePrice e (s_price req) (a_symbol asset) s = (Inr price, s1)"
    and whole: "a_quantity asset = quantity"
  shows "sellAsset e req s = (Failure 500 ''Server error selling asset'', s1)"
proof -
  note same = resolvePrice_snd [OF price]
  have row: "find (\<lambda>p. p_id p = s_portfolioId req) (portfolios s) = Some portfolio"
    using find_conj_distinct [OF keys(1)] portfolio
    by (simp add: portfolio_findFirst_def)
  have arow: "find (\<lambda>a. a_id a = s_assetId req) (assets s) = Some asset"
    using find_conj_distinct [OF keys(2)] held
    by (simp add: asset_findFirst_id_def)
  have ok: "\<not> a_quantity asset < quantity"
    using whole by simp
  show ?thesis
    unfolding sellAsset_def
    by (simp add: user quantity portfolio held ok whole price sellTransaction_def
          asset_delete_def portfolio_update_def transaction_create_def row arow same
          find_filter_gone)
qed

text \<open>A sell of a part of the holding that passes every check.\<close>

lemma sell_part_effect:
  assumes user: "truthyText (s_user req) = Some userId"
    and quantity: "positiveQuantity (s_quantity req) = Some quantity"
    and portfolio: "portfolio_findFirst (s_portfolioId req) userId s = Some portfolio"
    and held: "asset_findFirst_id (s_assetId req) (s_portfolioId req) s = Some asset"
    and keys: "distinct (map p_id (portfolios s))" "distinct (map a_id (assets s))"
    and price: "resolvePrice e (s_price req) (a_symbol asset) s = (Inr price, s1)"
    and part: "quantity < a_quantity asset"
  defines "sold \<equiv> (\<lambda>a. a\<lparr>a_quantity := a_quantity a - quantity, a_currentPrice := price\<rparr>)"
  shows "sellAsset e req s =
     (Success 200
        \<lparr>r_asset = Some (sold asset),
         r_portfolio = portfolio\<lparr>p_cash := p_cash portfolio + price * quantity\<rparr>,
         r_transaction =
           \<lparr>t_id = uuid e (minted s1), t_userId = userId,
            t_portfolioId = s_portfolioId req,
            t_assetId = Some (s_assetId req), t_type = SELL, t_quantity = quantity,
            t_price = price, t_totalAmount = price * quantity, t_timestamp = now e\<rparr>\<rparr>,
      s1\<lparr>assets := updateRows (\<lambda>r. a_id r = s_assetId req) sold (assets s),
         portfolios := updateRows (\<lambda>r. p_id r = s_portfolioId req)
                         (\<lambda>p. p\<lparr>p_cash := p_cash p + price * quantity\<rparr>) (portfolios s),
         transactions := transactions s @
           [\<lparr>t_id = uuid e (minted s1), t_userId = userId,
             t_portfolioId = s_portfolioId req,
             t_assetId = Some (s_assetId req), t_type = SELL, t_quantity = quantity,
             t_price = price, t_totalAmount = price * quantity, t_timestamp = now e\<rparr>],
         minted := Suc (minted s1)\<rparr>)"
proof -
  note same = resolvePrice_snd [OF price]
  have row: "find (\<lambda>p. p_id p = s_portfolioId req) (portfolios s) = Some portfolio"
    using find_conj_distinct [OF keys(1)] portfolio
    by (simp add: portfolio_findFirst_def)
  have arow: "find (\<lambda>a. a_id a = s_assetId req) (assets s) = Some asset"
    using find_conj_distinct [OF keys(2)] held
    by (simp add: asset_findFirst_id_def)
  have ok: "\<not> a_quantity asset < quantity" "a_quantity asset \<noteq> quantity"
    using part by simp_all
  show ?thesis
    unfolding sellAsset_def
    by (simp add: user quantity portfolio held ok price sellTransaction_def
          asset_update_def portfolio_update_def transaction_create_def row arow same Let_def
          sold_def find_updateRows_hit [OF _ arow])
qed

section \<open>Facts about deposits and withdrawals\<close>

text \<open>
  The guards that do keep the balance from going below zero: a withdrawal of more than
  the cash is rejected without a write, and an accepted withdrawal or deposit moves the
  cash by the amount, which is positive.
\<close>

lemma withdraw_guard:
  assumes "truthyText user = Some userId" "positiveQuantity amount = Some amt"
    and "portfolio_findFirst portfolioId userId s = Some portfolio"
    and "p_cash portfolio < amt"
  shows "withdrawCashFromPortfolio e user portfolioId amount s
           = (Failure 400 ''Insufficient cash balance'', s)"
  using assms by (simp add: withdrawCashFromPortfolio_def)

lemma withdraw_accepted:
  assumes "truthyText user = Some userId" "positiveQuantity amount = Some amt"
    and "portfolio_findFirst portfolioId userId s = Some portfolio"
    and "distinct (map p_id (portfolios s))"
    and "amt \<le> p_cash portfolio"
  shows "fst (withdrawCashFromPortfolio e user portfolioId amount s)
           = Success 200 (portfolio\<lparr>p_cash := p_cash portfolio - amt,
                                      p_totalValue := p_totalValue portfolio - amt\<rparr>)"
    and "0 \<le> p_cash portfolio - amt"
proof -
  have row: "find (\<lambda>p. p_id p = portfolioId) (portfolios s) = Some portfolio"
    using find_conj_distinct [OF assms(4)] assms(3) by (simp add: portfolio_findFirst_def)
  have "\<not> p_cash portfolio < amt" using assms(5) by simp
  then show "fst (withdrawCashFromPortfolio e user portfolioId amount s)
           = Success 200 (portfolio\<lparr>p_cash := p_cash portfolio - amt,
                                      p_totalValue := p_totalValue portfolio - amt\<rparr>)"
    using assms(1-3) row
    by (simp add: withdrawCashFromPortfolio_def portfolio_update_def transaction_create_def Let_def)
  show "0 \<le> p_cash portfolio - amt" using assms(5) by simp
qed

lemma deposit_accepted:
  assumes "truthyText user = Some userId" "positiveQuantity amount = Some amt"
    and "portfolio_findFirst portfolioId userId s = Some portfolio"
    and "distinct (map p_id (portfolios s))"
  shows "fst (addCashToPortfolio e user portfolioId amount s)
           = Success 200 (portfolio\<lparr>p_cash := p_cash portfolio + amt,
                                      p_totalValue := p_totalValue portfolio + amt\<rparr>)"
    and "0 < amt"
proof -
  have row: "find (\<lambda>p. p_id p = portfolioId) (portfolios s) = Some portfolio"
    using find_conj_distinct [OF assms(4)] assms(3) by (simp add: portfolio_findFirst_def)
  show "fst (addCashToPortfolio e user portfolioId amount s)
           = Success 200 (portfolio\<lparr>p_cash := p_cash portfolio + amt,
                                      p_totalValue := p_totalValue portfolio + amt\<rparr>)"
    using assms(1-3) row
    by (simp add: addCashToPortfolio_def portfolio_update_def transaction_create_def Let_def)
  show "0 < amt" using positiveQuantity_Some [OF assms(2)] by simp
qed

section \<open>Facts about revaluation\<close>











section \<open>Facts about the sync pass\<close>


text \<open>
  No fetch returns a row: when the answer is priced, the row is upserted and the emission
  through the undefined \<open>io\<close> throws; every other answer throws before any write.
\<close>

lemma fetchMarketData_throws: "\<exists>x. fst (fetchMarketData e symbol s) = Inl x"
  by (auto simp: fetchMarketData_def Let_def case_prod_beta emit_def app_io_def
        split: reply.splits option.splits)



lemma fetchLoop_step:
  "fetchLoop e (symbol # symbols) results s
     = fetchLoop e symbols results (snd (fetchMarketData e symbol s))"
proof -
  obtain x where "fst (fetchMarketData e symbol s) = Inl x"
    using fetchMarketData_throws by blast
  then show ?thesis
    by (cases "fetchMarketData e symbol s") simp
qed

lemma fetchLoop_results: "fst (fetchLoop e symbols results s) = results"
proof (induction symbols arbitrary: s)
  case Nil
  then show ?case by simp
next
  case (Cons symbol symbols)
  then show ?case by (simp only: fetchLoop_step)
qed






section \<open>Facts about emissions\<close>

text \<open>
  No trade emits. The two senders of the services emit nothing either: their handles are
  undefined, and the TypeError is caught in the one and rethrown to the loop in the other.
\<close>

lemma sellAsset_emitted: "emitted (snd (sellAsset e req s)) = emitted s"
  by (auto simp: sellAsset_def sellTransaction_def asset_delete_def asset_update_def
        portfolio_update_def transaction_create_def Let_def
        split: option.splits sum.splits prod.splits if_splits dest: resolvePrice_snd)

lemma buyAsset_emitted: "emitted (snd (buyAsset e req s)) = emitted s"
proof (cases "buyAsset e req s")
  case (Pair r s')
  from Pair show ?thesis
  proof (cases rule: buyAsset_cases)
    case rejected
    with Pair show ?thesis by simp
  next
    case accepted
    from buyTransaction_effect(3) [OF accepted(9)] resolvePrice_snd [OF accepted(7)] Pair
    show ?thesis by simp
  qed
qed

lemma emitPortfolioUpdate_silent: "emitPortfolioUpdate portfolioId s = s"
  by (simp add: emitPortfolioUpdate_def emit_def global_io_def Let_def split: option.splits)

lemma fetchMarketData_emitted: "emitted (snd (fetchMarketData e symbol s)) = emitted s"
  by (auto simp: fetchMarketData_def Let_def case_prod_beta emit_def app_io_def
        marketData_upsert_def split: reply.splits option.splits)

section \<open>The running example, evaluated\<close>

lemmas demo_defs = demoEnv_def demoPortfolio_def demoState_def demoBuy_def demoSell_def
  demoAsset_def demoBought_def demoHeld_def demoBoughtMore_def demoHeldMore_def
  demoRich_def demoRichHeld_def demoSold_def demoSoldPart_def demoQuote_def demoCached_def
  demoBadAsset_def demoTwo_def

lemmas store_defs = portfolio_findFirst_def portfolio_findUnique_def portfolio_update_def
  asset_findFirst_symbol_def asset_findFirst_id_def asset_findMany_def asset_update_def
  asset_delete_def asset_create_def transaction_create_def marketData_findUnique_def
  marketData_upsert_def portfolio_create_def updateRows_def emit_def app_io_def global_io_def

lemmas request_defs = positiveQuantity_def orElse_def assetTypeOf_def resolvePrice_def

lemma demo_buy:
  "buyAsset demoEnv (demoBuy 5 20) demoState =
     (Success 200 \<lparr>r_asset = Some demoAsset, r_portfolio = demoPortfolio\<lparr>p_cash := 100\<rparr>,
                   r_transaction = demoBought\<rparr>, demoHeld)"
  by (simp add: buyAsset_def buyTransaction_def demo_defs store_defs request_defs Let_def eval_nat_numeral)

lemma demo_buy_more:
  "buyAsset demoEnv (demoBuy 2 10) demoHeld =
     (Success 200
        \<lparr>r_asset = Some (demoAsset\<lparr>a_quantity := 7, a_purchasePrice := 120 / 7,
                                    a_currentPrice := 10\<rparr>),
         r_portfolio = demoPortfolio\<lparr>p_cash := 80\<rparr>,
         r_transaction = demoBoughtMore\<rparr>, demoHeldMore)"
  by (simp add: buyAsset_def buyTransaction_def demo_defs store_defs request_defs Let_def eval_nat_numeral)

lemma demo_rich_buy:
  "buyAsset demoEnv (demoBuy 10 100) demoRich =
     (Success 200
        \<lparr>r_asset = Some (demoAsset\<lparr>a_quantity := 10, a_purchasePrice := 100, a_currentPrice := 100\<rparr>),
         r_portfolio = demoPortfolio\<lparr>p_cash := 4000\<rparr>,
         r_transaction = demoBought\<lparr>t_quantity := 10, t_price := 100, t_totalAmount := 1000\<rparr>\<rparr>,
      demoRichHeld)"
  by (simp add: buyAsset_def buyTransaction_def demo_defs store_defs request_defs Let_def
        eval_nat_numeral)

lemma demo_rich_buy_more:
  "assets (snd (buyAsset demoEnv (demoBuy 10 200) demoRichHeld)) =
     [demoAsset\<lparr>a_quantity := 20, a_purchasePrice := 150, a_currentPrice := 200\<rparr>]"
  by (simp add: buyAsset_def buyTransaction_def demo_defs store_defs request_defs Let_def
        eval_nat_numeral)

lemma demo_sell_all:
  "sellAsset demoEnv (demoSell ''k'' 5 25) demoHeld
     = (Failure 500 ''Server error selling asset'', demoHeld)"
  by (simp add: sellAsset_def sellTransaction_def demo_defs store_defs request_defs Let_def
        eval_nat_numeral)

lemma demo_sell_part:
  "sellAsset demoEnv (demoSell ''k'' 2 25) demoHeld =
     (Success 200
        \<lparr>r_asset = Some (demoAsset\<lparr>a_quantity := 3, a_currentPrice := 25\<rparr>),
         r_portfolio = demoPortfolio\<lparr>p_cash := 150\<rparr>,
         r_transaction = demoSold\<rparr>, demoSoldPart)"
  by (simp add: sellAsset_def sellTransaction_def demo_defs store_defs request_defs Let_def
        eval_nat_numeral)


lemma demo_sync:
  "fetchLoop demoEnv [''BAD'', ''XYZ''] [] demoState =
     ([],
      demoState\<lparr>marketData :=
                  [\<lparr>m_id = ''k'', m_symbol = ''XYZ'', m_name = ''XYZ'', m_lastPrice = 25,
                    m_change = 5, m_changePercent = 25, m_updatedAt = 1000000\<rparr>],
                minted := 1,
                requested := [''BAD'', ''XYZ'']\<rparr>)"
  by (simp add: fetchMarketData_def demo_defs store_defs request_defs Let_def)

section \<open>Buying: cash, holding and transaction record\<close>

text \<open>
  C1. After a sequence of accepted buys on one portfolio, its cash is what the program
  computed buy after buy: starting from the initial cash, each buy subtracts price times
  quantity of its transaction record from the cash the buy before it left (the program's
  own \<open>cash - totalCost\<close>, one subtraction per buy, in the order of the buys; the
  products are not added up first). One transaction record has been appended per buy, with
  the requested quantity. In particular a buy that passes the checks, of quantity q at the
  resolved price p, into a portfolio with cash at least p*q and no holding of the symbol,
  is accepted, leaves cash c - p*q, creates one holding with quantity q, average price p
  and current price p, and appends one BUY transaction with quantity q, price p and total
  amount p*q.
\<close>

theorem buy_cash_accounting:
  "((\<forall>x\<in>set xs. b_portfolioId (snd x) = portfolioId)
      \<and> portfolio_findUnique portfolioId s0 = Some p0
      \<and> buyMany xs s0 = (map (Success 200) ts, sN)
     \<longrightarrow> (\<exists>p1. portfolio_findUnique portfolioId sN = Some p1
             \<and> p_cash p1 =
                 foldl (\<lambda>cash t. cash - t_price (r_transaction t) * t_quantity (r_transaction t))
                   (p_cash p0) ts)
         \<and> transactions sN = transactions s0 @ map r_transaction ts
         \<and> map (\<lambda>x. b_quantity (snd x)) xs = map (\<lambda>t. Some (t_quantity (r_transaction t))) ts)
   \<and> (truthyText (b_user req) = Some userId \<and> truthyText (b_symbol req) = Some symbol
      \<and> truthyText (b_type req) = Some ty \<and> assetTypeOf ty = Some kind
      \<and> positiveQuantity (b_quantity req) = Some q
      \<and> portfolio_findFirst (b_portfolioId req) userId s = Some portfolio
      \<and> distinct (map p_id (portfolios s))
      \<and> resolvePrice e (b_price req) symbol s = (Inr p, s1)
      \<and> p * q \<le> p_cash portfolio
      \<and> asset_findFirst_symbol (b_portfolioId req) symbol s = None
     \<longrightarrow> (\<exists>a t s2.
            buyAsset e req s =
              (Success 200 \<lparr>r_asset = Some a,
                            r_portfolio = portfolio\<lparr>p_cash := p_cash portfolio - p * q\<rparr>,
                            r_transaction = t\<rparr>, s2)
          \<and> portfolio_findUnique (b_portfolioId req) s2
              = Some (portfolio\<lparr>p_cash := p_cash portfolio - p * q\<rparr>)
          \<and> assets s2 = assets s @ [a]
          \<and> a_portfolioId a = b_portfolioId req \<and> a_symbol a = symbol
          \<and> a_quantity a = q \<and> a_purchasePrice a = p \<and> a_currentPrice a = p
          \<and> transactions s2 = transactions s @ [t]
          \<and> t_type t = BUY \<and> t_quantity t = q \<and> t_price t = p \<and> t_totalAmount t = p * q))"
proof (intro conjI impI)
  assume "(\<forall>x\<in>set xs. b_portfolioId (snd x) = portfolioId)
      \<and> portfolio_findUnique portfolioId s0 = Some p0
      \<and> buyMany xs s0 = (map (Success 200) ts, sN)"
  then have *: "\<forall>x\<in>set xs. b_portfolioId (snd x) = portfolioId"
    "portfolio_findUnique portfolioId s0 = Some p0"
    "buyMany xs s0 = (map (Success 200) ts, sN)"
    by simp_all
  note all = buyMany_cash [OF *]
  from all show "\<exists>p1. portfolio_findUnique portfolioId sN = Some p1
             \<and> p_cash p1 =
                 foldl (\<lambda>cash t. cash - t_price (r_transaction t) * t_quantity (r_transaction t))
                   (p_cash p0) ts"
    by (rule conjunct1)
  from all show "transactions sN = transactions s0 @ map r_transaction ts"
    by simp
  from all show "map (\<lambda>x. b_quantity (snd x)) xs = map (\<lambda>t. Some (t_quantity (r_transaction t))) ts"
    by simp
next
  assume h: "truthyText (b_user req) = Some userId \<and> truthyText (b_symbol req) = Some symbol
      \<and> truthyText (b_type req) = Some ty \<and> assetTypeOf ty = Some kind
      \<and> positiveQuantity (b_quantity req) = Some q
      \<and> portfolio_findFirst (b_portfolioId req) userId s = Some portfolio
      \<and> distinct (map p_id (portfolios s))
      \<and> resolvePrice e (b_price req) symbol s = (Inr p, s1)
      \<and> p * q \<le> p_cash portfolio
      \<and> asset_findFirst_symbol (b_portfolioId req) symbol s = None"
  then have run: "buyAsset e req s =
     (Success 200
        \<lparr>r_asset = Some
           \<lparr>a_id = uuid e (minted s1), a_portfolioId = b_portfolioId req, a_symbol = symbol,
            a_name = orElse (b_name req) symbol, a_type = kind, a_quantity = q,
            a_purchasePrice = p, a_currentPrice = p\<rparr>,
         r_portfolio = portfolio\<lparr>p_cash := p_cash portfolio - p * q\<rparr>,
         r_transaction =
           \<lparr>t_id = uuid e (Suc (minted s1)), t_userId = userId,
            t_portfolioId = b_portfolioId req,
            t_assetId = Some (uuid e (minted s1)), t_type = BUY, t_quantity = q,
            t_price = p, t_totalAmount = p * q, t_timestamp = now e\<rparr>\<rparr>,
      s1\<lparr>assets := assets s @
           [\<lparr>a_id = uuid e (minted s1), a_portfolioId = b_portfolioId req, a_symbol = symbol,
             a_name = orElse (b_name req) symbol, a_type = kind, a_quantity = q,
             a_purchasePrice = p, a_currentPrice = p\<rparr>],
         minted := Suc (Suc (minted s1)),
         portfolios := updateRows (\<lambda>r. p_id r = b_portfolioId req)
                         (\<lambda>p'. p'\<lparr>p_cash := p_cash p' - p * q\<rparr>) (portfolios s),
         transactions := transactions s @
           [\<lparr>t_id = uuid e (Suc (minted s1)), t_userId = userId,
             t_portfolioId = b_portfolioId req,
             t_assetId = Some (uuid e (minted s1)), t_type = BUY, t_quantity = q,
             t_price = p, t_totalAmount = p * q, t_timestamp = now e\<rparr>]\<rparr>)"
    by (intro buy_new_holding [where ty = ty]) simp_all
  from h have row: "find (\<lambda>r. p_id r = b_portfolioId req) (portfolios s) = Some portfolio"
    using find_conj_distinct [of p_id "portfolios s" "b_portfolioId req"
        "\<lambda>r. p_userId r = userId" portfolio]
    by (simp add: portfolio_findFirst_def)
  show "\<exists>a t s2.
            buyAsset e req s =
              (Success 200 \<lparr>r_asset = Some a,
                            r_portfolio = portfolio\<lparr>p_cash := p_cash portfolio - p * q\<rparr>,
                            r_transaction = t\<rparr>, s2)
          \<and> portfolio_findUnique (b_portfolioId req) s2
              = Some (portfolio\<lparr>p_cash := p_cash portfolio - p * q\<rparr>)
          \<and> assets s2 = assets s @ [a]
          \<and> a_portfolioId a = b_portfolioId req \<and> a_symbol a = symbol
          \<and> a_quantity a = q \<and> a_purchasePrice a = p \<and> a_currentPrice a = p
          \<and> transactions s2 = transactions s @ [t]
          \<and> t_type t = BUY \<and> t_quantity t = q \<and> t_price t = p \<and> t_totalAmount t = p * q"
    unfolding run
    by (simp add: portfolio_findUnique_def find_updateRows row)
qed

theorem buy_cash_accounting_witness:
  "(b_portfolioId (demoBuy 5 20) = ''p1'' \<and> b_portfolioId (demoBuy 2 10) = ''p1''
      \<and> portfolio_findUnique ''p1'' demoState = Some demoPortfolio
      \<and> buyMany [(demoEnv, demoBuy 5 20), (demoEnv, demoBuy 2 10)] demoState =
          (map (Success 200)
             [\<lparr>r_asset = Some demoAsset, r_portfolio = demoPortfolio\<lparr>p_cash := 100\<rparr>,
               r_transaction = demoBought\<rparr>,
              \<lparr>r_asset = Some (demoAsset\<lparr>a_quantity := 7, a_purchasePrice := 120 / 7,
                                          a_currentPrice := 10\<rparr>),
               r_portfolio = demoPortfolio\<lparr>p_cash := 80\<rparr>,
               r_transaction = demoBoughtMore\<rparr>], demoHeldMore))
   \<and> portfolio_findUnique ''p1'' demoHeldMore = Some (demoPortfolio\<lparr>p_cash := 80\<rparr>)
   \<and> p_cash demoPortfolio - 20 * 5 - 10 * 2 = 80
   \<and> transactions demoHeldMore = [demoBought, demoBoughtMore]
   \<and> (truthyText (b_user (demoBuy 5 20)) = Some ''u1''
      \<and> truthyText (b_symbol (demoBuy 5 20)) = Some ''XYZ''
      \<and> truthyText (b_type (demoBuy 5 20)) = Some ''STOCK'' \<and> assetTypeOf ''STOCK'' = Some STOCK
      \<and> positiveQuantity (b_quantity (demoBuy 5 20)) = Some 5
      \<and> portfolio_findFirst (b_portfolioId (demoBuy 5 20)) ''u1'' demoState = Some demoPortfolio
      \<and> distinct (map p_id (portfolios demoState))
      \<and> resolvePrice demoEnv (b_price (demoBuy 5 20)) ''XYZ'' demoState = (Inr 20, demoState)
      \<and> 20 * 5 \<le> p_cash demoPortfolio
      \<and> asset_findFirst_symbol (b_portfolioId (demoBuy 5 20)) ''XYZ'' demoState = None)
   \<and> buyAsset demoEnv (demoBuy 5 20) demoState =
       (Success 200 \<lparr>r_asset = Some demoAsset, r_portfolio = demoPortfolio\<lparr>p_cash := 100\<rparr>,
                     r_transaction = demoBought\<rparr>, demoHeld)
   \<and> a_quantity demoAsset = 5 \<and> a_purchasePrice demoAsset = 20 \<and> a_currentPrice demoAsset = 20
   \<and> t_type demoBought = BUY \<and> t_quantity demoBought = 5 \<and> t_price demoBought = 20
   \<and> t_totalAmount demoBought = 100"
proof -
  have h1: "(\<forall>x\<in>set [(demoEnv, demoBuy 5 20), (demoEnv, demoBuy 2 10)]. b_portfolioId (snd x) = ''p1'')
      \<and> portfolio_findUnique ''p1'' demoState = Some demoPortfolio
      \<and> buyMany [(demoEnv, demoBuy 5 20), (demoEnv, demoBuy 2 10)] demoState =
          (map (Success 200)
             [\<lparr>r_asset = Some demoAsset, r_portfolio = demoPortfolio\<lparr>p_cash := 100\<rparr>,
               r_transaction = demoBought\<rparr>,
              \<lparr>r_asset = Some (demoAsset\<lparr>a_quantity := 7, a_purchasePrice := 120 / 7,
                                          a_currentPrice := 10\<rparr>),
               r_portfolio = demoPortfolio\<lparr>p_cash := 80\<rparr>,
               r_transaction = demoBoughtMore\<rparr>], demoHeldMore)"
    by (simp add: demo_buy demo_buy_more)
       (simp add: demoBuy_def demoState_def demoPortfolio_def portfolio_findUnique_def)
  have h2: "truthyText (b_user (demoBuy 5 20)) = Some ''u1''
      \<and> truthyText (b_symbol (demoBuy 5 20)) = Some ''XYZ''
      \<and> truthyText (b_type (demoBuy 5 20)) = Some ''STOCK'' \<and> assetTypeOf ''STOCK'' = Some STOCK
      \<and> positiveQuantity (b_quantity (demoBuy 5 20)) = Some 5
      \<and> portfolio_findFirst (b_portfolioId (demoBuy 5 20)) ''u1'' demoState = Some demoPortfolio
      \<and> distinct (map p_id (portfolios demoState))
      \<and> resolvePrice demoEnv (b_price (demoBuy 5 20)) ''XYZ'' demoState = (Inr 20, demoState)
      \<and> 20 * 5 \<le> p_cash demoPortfolio
      \<and> asset_findFirst_symbol (b_portfolioId (demoBuy 5 20)) ''XYZ'' demoState = None"
    by (simp add: demo_defs store_defs request_defs)
  from buy_cash_accounting [THEN conjunct1, THEN mp, OF h1]
       buy_cash_accounting [THEN conjunct2, THEN mp, OF h2] h1 h2
  show ?thesis
    by (simp add: demo_buy) (simp add: demo_defs store_defs)
qed

section \<open>Buying more of a holding: the weighted average\<close>

text \<open>
  C4. A buy that passes the checks, of quantity q at the resolved price p, into a
  portfolio that already holds the symbol with quantity Q and average price A (Q + q not
  0, so that the division is the real one) leaves that holding with quantity Q + q,
  average price (A*Q + p*q)/(Q + q) and current price p, in the response and in the
  store. Buying 10 at 100 and then 10 at 200 leaves one holding of 20 at average 150.
\<close>

theorem buy_merges_holding:
  "(truthyText (b_user req) = Some userId \<and> truthyText (b_symbol req) = Some symbol
      \<and> truthyText (b_type req) = Some ty
      \<and> positiveQuantity (b_quantity req) = Some q
      \<and> portfolio_findFirst (b_portfolioId req) userId s = Some portfolio
      \<and> distinct (map p_id (portfolios s)) \<and> distinct (map a_id (assets s))
      \<and> resolvePrice e (b_price req) symbol s = (Inr p, s1)
      \<and> p * q \<le> p_cash portfolio
      \<and> asset_findFirst_symbol (b_portfolioId req) symbol s = Some ex
      \<and> a_quantity ex + q \<noteq> 0
     \<longrightarrow> (\<exists>t s2.
            buyAsset e req s =
              (Success 200
                 \<lparr>r_asset = Some (ex\<lparr>a_quantity := a_quantity ex + q,
                      a_purchasePrice := (a_purchasePrice ex * a_quantity ex + p * q)
                                           / (a_quantity ex + q),
                      a_currentPrice := p\<rparr>),
                  r_portfolio = portfolio\<lparr>p_cash := p_cash portfolio - p * q\<rparr>,
                  r_transaction = t\<rparr>, s2)
          \<and> asset_findFirst_symbol (b_portfolioId req) symbol s2 =
              Some (ex\<lparr>a_quantity := a_quantity ex + q,
                      a_purchasePrice := (a_purchasePrice ex * a_quantity ex + p * q)
                                           / (a_quantity ex + q),
                      a_currentPrice := p\<rparr>)
          \<and> length (assets s2) = length (assets s)))
   \<and> assets (snd (buyMany [(demoEnv, demoBuy 10 100), (demoEnv, demoBuy 10 200)] demoRich)) =
       [demoAsset\<lparr>a_quantity := 20, a_purchasePrice := 150, a_currentPrice := 200\<rparr>]"
proof (rule conjI, rule impI)
  assume h: "truthyText (b_user req) = Some userId \<and> truthyText (b_symbol req) = Some symbol
      \<and> truthyText (b_type req) = Some ty
      \<and> positiveQuantity (b_quantity req) = Some q
      \<and> portfolio_findFirst (b_portfolioId req) userId s = Some portfolio
      \<and> distinct (map p_id (portfolios s)) \<and> distinct (map a_id (assets s))
      \<and> resolvePrice e (b_price req) symbol s = (Inr p, s1)
      \<and> p * q \<le> p_cash portfolio
      \<and> asset_findFirst_symbol (b_portfolioId req) symbol s = Some ex
      \<and> a_quantity ex + q \<noteq> 0"
  then have hs: "truthyText (b_user req) = Some userId" "truthyText (b_symbol req) = Some symbol"
    "truthyText (b_type req) = Some ty" "positiveQuantity (b_quantity req) = Some q"
    "portfolio_findFirst (b_portfolioId req) userId s = Some portfolio"
    "distinct (map p_id (portfolios s))" "distinct (map a_id (assets s))"
    "resolvePrice e (b_price req) symbol s = (Inr p, s1)"
    "p * q \<le> p_cash portfolio"
    "asset_findFirst_symbol (b_portfolioId req) symbol s = Some ex"
    by simp_all
  note run = buy_existing_holding [OF hs]
  show "\<exists>t s2.
            buyAsset e req s =
              (Success 200
                 \<lparr>r_asset = Some (ex\<lparr>a_quantity := a_quantity ex + q,
                      a_purchasePrice := (a_purchasePrice ex * a_quantity ex + p * q)
                                           / (a_quantity ex + q),
                      a_currentPrice := p\<rparr>),
                  r_portfolio = portfolio\<lparr>p_cash := p_cash portfolio - p * q\<rparr>,
                  r_transaction = t\<rparr>, s2)
          \<and> asset_findFirst_symbol (b_portfolioId req) symbol s2 =
              Some (ex\<lparr>a_quantity := a_quantity ex + q,
                      a_purchasePrice := (a_purchasePrice ex * a_quantity ex + p * q)
                                           / (a_quantity ex + q),
                      a_currentPrice := p\<rparr>)
          \<and> length (assets s2) = length (assets s)"
    unfolding run(1)
    using run(2) by (simp add: asset_findFirst_symbol_def updateRows_def)
next
  show "assets (snd (buyMany [(demoEnv, demoBuy 10 100), (demoEnv, demoBuy 10 200)] demoRich)) =
       [demoAsset\<lparr>a_quantity := 20, a_purchasePrice := 150, a_currentPrice := 200\<rparr>]"
    by (simp add: demo_rich_buy demo_rich_buy_more case_prod_beta)
qed

theorem buy_merges_holding_witness:
  "(truthyText (b_user (demoBuy 10 200)) = Some ''u1''
      \<and> truthyText (b_symbol (demoBuy 10 200)) = Some ''XYZ''
      \<and> truthyText (b_type (demoBuy 10 200)) = Some ''STOCK''
      \<and> positiveQuantity (b_quantity (demoBuy 10 200)) = Some 10
      \<and> portfolio_findFirst (b_portfolioId (demoBuy 10 200)) ''u1'' demoRichHeld
          = Some (demoPortfolio\<lparr>p_cash := 4000\<rparr>)
      \<and> distinct (map p_id (portfolios demoRichHeld))
      \<and> distinct (map a_id (assets demoRichHeld))
      \<and> resolvePrice demoEnv (b_price (demoBuy 10 200)) ''XYZ'' demoRichHeld
          = (Inr 200, demoRichHeld)
      \<and> 200 * 10 \<le> p_cash (demoPortfolio\<lparr>p_cash := 4000\<rparr>)
      \<and> asset_findFirst_symbol (b_portfolioId (demoBuy 10 200)) ''XYZ'' demoRichHeld
          = Some (demoAsset\<lparr>a_quantity := 10, a_purchasePrice := 100, a_currentPrice := 100\<rparr>)
      \<and> a_quantity (demoAsset\<lparr>a_quantity := 10, a_purchasePrice := 100, a_currentPrice := 100\<rparr>)
            + 10 \<noteq> 0)
   \<and> (\<exists>t s2.
        buyAsset demoEnv (demoBuy 10 200) demoRichHeld =
          (Success 200
             \<lparr>r_asset = Some (demoAsset\<lparr>a_quantity := 20, a_purchasePrice := 150,
                                         a_currentPrice := 200\<rparr>),
              r_portfolio = demoPortfolio\<lparr>p_cash := 2000\<rparr>,
              r_transaction = t\<rparr>, s2)
      \<and> asset_findFirst_symbol ''p1'' ''XYZ'' s2 =
          Some (demoAsset\<lparr>a_quantity := 20, a_purchasePrice := 150, a_currentPrice := 200\<rparr>))"
proof -
  have h: "truthyText (b_user (demoBuy 10 200)) = Some ''u1''
      \<and> truthyText (b_symbol (demoBuy 10 200)) = Some ''XYZ''
      \<and> truthyText (b_type (demoBuy 10 200)) = Some ''STOCK''
      \<and> positiveQuantity (b_quantity (demoBuy 10 200)) = Some 10
      \<and> portfolio_findFirst (b_portfolioId (demoBuy 10 200)) ''u1'' demoRichHeld
          = Some (demoPortfolio\<lparr>p_cash := 4000\<rparr>)
      \<and> distinct (map p_id (portfolios demoRichHeld))
      \<and> distinct (map a_id (assets demoRichHeld))
      \<and> resolvePrice demoEnv (b_price (demoBuy 10 200)) ''XYZ'' demoRichHeld
          = (Inr 200, demoRichHeld)
      \<and> 200 * 10 \<le> p_cash (demoPortfolio\<lparr>p_cash := 4000\<rparr>)
      \<and> asset_findFirst_symbol (b_portfolioId (demoBuy 10 200)) ''XYZ'' demoRichHeld
          = Some (demoAsset\<lparr>a_quantity := 10, a_purchasePrice := 100, a_currentPrice := 100\<rparr>)
      \<and> a_quantity (demoAsset\<lparr>a_quantity := 10, a_purchasePrice := 100, a_currentPrice := 100\<rparr>)
            + 10 \<noteq> 0"
    by (simp add: demo_defs store_defs request_defs)
  from buy_merges_holding [THEN conjunct1, THEN mp, OF h] h
  show ?thesis
    by (auto simp add: demoBuy_def demoAsset_def demoPortfolio_def)
qed

section \<open>Selling\<close>

text \<open>
  C3 fails on the code when the whole holding is sold. The portfolio with cash 100 holds
  5 XYZ, bought at 20, and the owner sells all 5 at 25. The request passes every check
  (holding found, quantity 5 is not less than 5), the transaction body deletes the holding
  row, credits the cash, and then creates the SELL record with the deleted row's id as its
  asset reference: the store refuses the record, the unit is rolled back, and the answer
  is 500 \<open>Server error selling asset\<close>. The holding is still there with quantity 5, the
  cash is still 100, and no SELL record was appended; the claim says holding deleted, cash
  225 and one SELL record. (Lemma \<open>sell_all_rolls_back\<close> shows this for every sale of a
  whole holding.) A sale of a part of the holding does what the claim says: selling 2 of
  the 5 at 25 leaves quantity 3 at current price 25, cash 150, and appends one SELL record
  with quantity 2, price 25 and total amount 50.
\<close>

theorem sell_all_fails:
  "asset_findFirst_id ''k'' ''p1'' demoHeld = Some demoAsset
   \<and> a_quantity demoAsset = 5
   \<and> portfolio_findUnique ''p1'' demoHeld = Some (demoPortfolio\<lparr>p_cash := 100\<rparr>)
   \<and> transactions demoHeld = [demoBought]
   \<and> s_quantity (demoSell ''k'' 5 25) = Some 5 \<and> s_price (demoSell ''k'' 5 25) = Some 25
   \<and> sellAsset demoEnv (demoSell ''k'' 5 25) demoHeld
       = (Failure 500 ''Server error selling asset'', demoHeld)
   \<and> sellAsset demoEnv (demoSell ''k'' 2 25) demoHeld
       = (Success 200
            \<lparr>r_asset = Some (demoAsset\<lparr>a_quantity := 3, a_currentPrice := 25\<rparr>),
             r_portfolio = demoPortfolio\<lparr>p_cash := 150\<rparr>,
             r_transaction = demoSold\<rparr>, demoSoldPart)
   \<and> asset_findFirst_id ''k'' ''p1'' demoSoldPart
       = Some (demoAsset\<lparr>a_quantity := 3, a_currentPrice := 25\<rparr>)
   \<and> portfolio_findUnique ''p1'' demoSoldPart = Some (demoPortfolio\<lparr>p_cash := 150\<rparr>)
   \<and> transactions demoSoldPart = [demoBought, demoSold]
   \<and> t_type demoSold = SELL \<and> t_quantity demoSold = 2 \<and> t_price demoSold = 25
   \<and> t_totalAmount demoSold = 50"
  by (simp add: demo_sell_all demo_sell_part) (simp add: demo_defs store_defs)

section \<open>The price cache\<close>

text \<open>
  C6. When the cached row of a symbol is less than five minutes old, \<open>getMarketPrice\<close>
  returns its price and leaves the state as it was, so no request goes to the provider.
  When the row is five minutes old or older, or there is none, exactly one request for the
  symbol is recorded; and when the provider then answers with a price text and a percent
  text, the parsed price is returned and the symbol's row afterwards carries that price,
  the parsed change and percent change, and the current instant.
\<close>

theorem price_cache_five_minutes:
  "(marketData_findUnique symbol s = Some m \<and> now e - m_updatedAt m < 5 * 60 * 1000
      \<longrightarrow> getMarketPrice e symbol s = (Inr (m_lastPrice m), s))
   \<and> ((case marketData_findUnique symbol s of
        None \<Rightarrow> True | Some m \<Rightarrow> 5 * 60 * 1000 \<le> now e - m_updatedAt m)
      \<longrightarrow> requested (snd (getMarketPrice e symbol s)) = requested s @ [symbol])
   \<and> ((case marketData_findUnique symbol s of
        None \<Rightarrow> True | Some m \<Rightarrow> 5 * 60 * 1000 \<le> now e - m_updatedAt m)
      \<and> provider e symbol = Data (Some q) \<and> truthyText (price05 q) = Some txt
      \<and> changePercent10 q = Some pct
      \<longrightarrow> fst (getMarketPrice e symbol s) = Inr (parseFloat e txt)
        \<and> (\<exists>row. marketData_findUnique symbol (snd (getMarketPrice e symbol s)) = Some row
              \<and> m_symbol row = symbol \<and> m_lastPrice row = parseFloat e txt
              \<and> m_change row = parseFloat e (orElse (change09 q) ''0'')
              \<and> m_changePercent row
                  = parseFloat e (orElse (Some (replaceFirst CHR ''%'' pct)) ''0'')
              \<and> m_updatedAt row = now e))"
proof (intro conjI impI)
  assume "marketData_findUnique symbol s = Some m \<and> now e - m_updatedAt m < 5 * 60 * 1000"
  then show "getMarketPrice e symbol s = (Inr (m_lastPrice m), s)"
    by (simp add: getMarketPrice_fresh)
next
  assume "(case marketData_findUnique symbol s of
        None \<Rightarrow> True | Some m \<Rightarrow> 5 * 60 * 1000 \<le> now e - m_updatedAt m)"
  then show "requested (snd (getMarketPrice e symbol s)) = requested s @ [symbol]"
    by (rule getMarketPrice_asks)
next
  assume h: "(case marketData_findUnique symbol s of
        None \<Rightarrow> True | Some m \<Rightarrow> 5 * 60 * 1000 \<le> now e - m_updatedAt m)
      \<and> provider e symbol = Data (Some q) \<and> truthyText (price05 q) = Some txt
      \<and> changePercent10 q = Some pct"
  then have run: "getMarketPrice e symbol s =
           (Inr (parseFloat e txt),
            snd (marketData_upsert e symbol (parseFloat e txt)
                   (parseFloat e (orElse (change09 q) ''0''))
                   (parseFloat e (orElse (Some (replaceFirst CHR ''%'' pct)) ''0''))
                   (s\<lparr>requested := requested s @ [symbol]\<rparr>)))"
    by (intro getMarketPrice_refreshes) simp_all
  show "fst (getMarketPrice e symbol s) = Inr (parseFloat e txt)"
    by (simp add: run)
  show "\<exists>row. marketData_findUnique symbol (snd (getMarketPrice e symbol s)) = Some row
              \<and> m_symbol row = symbol \<and> m_lastPrice row = parseFloat e txt
              \<and> m_change row = parseFloat e (orElse (change09 q) ''0'')
              \<and> m_changePercent row
                  = parseFloat e (orElse (Some (replaceFirst CHR ''%'' pct)) ''0'')
              \<and> m_updatedAt row = now e"
    by (simp add: run upsert_row)
qed

theorem price_cache_five_minutes_witness:
  "(marketData_findUnique ''XYZ'' (demoCached ''XYZ'' 299999) = Some (demoQuote ''XYZ'' 299999)
      \<and> now demoEnv - m_updatedAt (demoQuote ''XYZ'' 299999) < 5 * 60 * 1000)
   \<and> getMarketPrice demoEnv ''XYZ'' (demoCached ''XYZ'' 299999)
       = (Inr 20, demoCached ''XYZ'' 299999)
   \<and> requested (demoCached ''XYZ'' 299999) = []
   \<and> (case marketData_findUnique ''XYZ'' (demoCached ''XYZ'' 300000) of
        None \<Rightarrow> True | Some m \<Rightarrow> 5 * 60 * 1000 \<le> now demoEnv - m_updatedAt m)
   \<and> requested (snd (getMarketPrice demoEnv ''XYZ'' (demoCached ''XYZ'' 300000))) = [''XYZ'']
   \<and> provider demoEnv ''XYZ'' = Data (Some \<lparr>price05 = Some ''25'', change09 = Some ''5'', changePercent10 = Some ''25%''\<rparr>)
   \<and> truthyText (price05 \<lparr>price05 = Some ''25'', change09 = Some ''5'', changePercent10 = Some ''25%''\<rparr>) = Some ''25''
   \<and> changePercent10 \<lparr>price05 = Some ''25'', change09 = Some ''5'', changePercent10 = Some ''25%''\<rparr> = Some ''25%''
   \<and> fst (getMarketPrice demoEnv ''XYZ'' (demoCached ''XYZ'' 300000)) = Inr 25
   \<and> marketData_findUnique ''XYZ'' (snd (getMarketPrice demoEnv ''XYZ'' (demoCached ''XYZ'' 300000)))
       = Some \<lparr>m_id = ''q'', m_symbol = ''XYZ'', m_name = ''XYZ'', m_lastPrice = 25,
                m_change = 5, m_changePercent = 25, m_updatedAt = 1000000\<rparr>"
proof -
  have h1: "marketData_findUnique ''XYZ'' (demoCached ''XYZ'' 299999) = Some (demoQuote ''XYZ'' 299999)
      \<and> now demoEnv - m_updatedAt (demoQuote ''XYZ'' 299999) < 5 * 60 * 1000"
    by (simp add: demo_defs store_defs)
  have h2: "(case marketData_findUnique ''XYZ'' (demoCached ''XYZ'' 300000) of
        None \<Rightarrow> True | Some m \<Rightarrow> 5 * 60 * 1000 \<le> now demoEnv - m_updatedAt m)"
    by (simp add: demo_defs store_defs)
  have h3: "(case marketData_findUnique ''XYZ'' (demoCached ''XYZ'' 300000) of
        None \<Rightarrow> True | Some m \<Rightarrow> 5 * 60 * 1000 \<le> now demoEnv - m_updatedAt m)
      \<and> provider demoEnv ''XYZ'' = Data (Some \<lparr>price05 = Some ''25'', change09 = Some ''5'', changePercent10 = Some ''25%''\<rparr>)
      \<and> truthyText (price05 \<lparr>price05 = Some ''25'', change09 = Some ''5'', changePercent10 = Some ''25%''\<rparr>) = Some ''25''
      \<and> changePercent10 \<lparr>price05 = Some ''25'', change09 = Some ''5'', changePercent10 = Some ''25%''\<rparr> = Some ''25%''"
    by (simp add: demo_defs store_defs)
  have row: "marketData_findUnique ''XYZ'' (snd (getMarketPrice demoEnv ''XYZ'' (demoCached ''XYZ'' 300000)))
       = Some \<lparr>m_id = ''q'', m_symbol = ''XYZ'', m_name = ''XYZ'', m_lastPrice = 25,
                m_change = 5, m_changePercent = 25, m_updatedAt = 1000000\<rparr>"
    by (simp add: getMarketPrice_def demo_defs store_defs request_defs Let_def)
  from price_cache_five_minutes [THEN conjunct1, THEN mp, OF h1]
       price_cache_five_minutes [THEN conjunct2, THEN conjunct1, THEN mp, OF h2]
       price_cache_five_minutes [THEN conjunct2, THEN conjunct2, THEN mp, OF h3] h1 h3 row
  show ?thesis
    by (simp add: demo_defs)
qed

section \<open>Provider failures\<close>

text \<open>
  C7 fails on the code when the provider call rejects. The example holds a stale row of
  price 20 for BAD and the provider rejects the request: \<open>getMarketPrice\<close> throws the
  provider's error instead of returning 20, and a buy without a price gets the 400
  response of the price lookup.
\<close>

theorem provider_error_hides_stale_price:
  "marketData_findUnique ''BAD'' (demoCached ''BAD'' 300001) = Some (demoQuote ''BAD'' 300001)
   \<and> m_lastPrice (demoQuote ''BAD'' 300001) = 20
   \<and> provider demoEnv ''BAD'' = Threw
   \<and> getMarketPrice demoEnv ''BAD'' (demoCached ''BAD'' 300001)
       = (Inl AxiosError, (demoCached ''BAD'' 300001)\<lparr>requested := [''BAD'']\<rparr>)
   \<and> buyAsset demoEnv ((demoBuy 1 0)\<lparr>b_symbol := Some ''BAD''\<rparr>) (demoCached ''BAD'' 300001)
       = (Failure 400 ''Could not retrieve market price. Please provide a price.'',
          (demoCached ''BAD'' 300001)\<lparr>requested := [''BAD'']\<rparr>)"
  by (simp add: buyAsset_def getMarketPrice_def demo_defs store_defs request_defs Let_def)

section \<open>The sign of the cash balance\<close>

text \<open>
  C5 fails on the code. Creating a portfolio with \<open>cash: -5\<close> is answered 201 and stores
  a cash balance of -5. Selling 2 of the 5 XYZ of the example at the explicit price -60 is
  answered 200 and takes the cash from 100 to 100 + (-60 * 2) = -20; the holding keeps 3
  units, so the SELL record refers to a row that exists and the unit is committed.
\<close>

theorem negative_cash_reachable:
  "createPortfolio demoEnv
       \<lparr>c_user = Some ''u1'', c_name = Some ''debt'', c_description = None, c_cash = Some (- 5)\<rparr>
       demoState =
     (Success 201
        \<lparr>p_id = ''k'', p_userId = ''u1'', p_name = ''debt'', p_description = None,
         p_totalValue = - 5, p_cash = - 5\<rparr>,
      demoState\<lparr>portfolios :=
          [demoPortfolio,
           \<lparr>p_id = ''k'', p_userId = ''u1'', p_name = ''debt'', p_description = None,
            p_totalValue = - 5, p_cash = - 5\<rparr>],
        minted := 1\<rparr>)
   \<and> p_cash \<lparr>p_id = ''k'', p_userId = ''u1'', p_name = ''debt'', p_description = None,
              p_totalValue = - 5, p_cash = - 5\<rparr> < 0
   \<and> map_option p_cash (portfolio_findUnique ''p1'' demoHeld) = Some 100
   \<and> fst (sellAsset demoEnv (demoSell ''k'' 2 (- 60)) demoHeld) =
       Success 200
         \<lparr>r_asset = Some (demoAsset\<lparr>a_quantity := 3, a_currentPrice := - 60\<rparr>),
          r_portfolio = demoPortfolio\<lparr>p_cash := - 20\<rparr>,
          r_transaction = demoSold\<lparr>t_price := - 60, t_totalAmount := - 120\<rparr>\<rparr>
   \<and> map_option p_cash
         (portfolio_findUnique ''p1'' (snd (sellAsset demoEnv (demoSell ''k'' 2 (- 60)) demoHeld)))
       = Some (- 20)"
  by (simp add: createPortfolio_def sellAsset_def sellTransaction_def demo_defs store_defs
        request_defs Let_def eval_nat_numeral)

section \<open>Notifications\<close>

text \<open>
  C8 fails on the code. Neither \<open>buyAsset\<close> nor \<open>sellAsset\<close> emits anything, whatever the
  outcome: the list of emissions after the call is the list before it. The controller
  never calls \<open>emitPortfolioUpdate\<close>, and a call would change nothing either, since the
  function reads its server from \<open>global.io\<close>, which nothing assigns, and swallows the
  error. At the running example: the buy of 5 XYZ at 20 is committed (200) and the sale
  of 2 of them at 25 is committed (200), and no event has been emitted after either, where
  the claim has a \<open>portfolio:update\<close> sent to the portfolio's room and to the user's room
  after each.
\<close>

theorem committed_trades_silent:
  "emitted (snd (buyAsset e req s)) = emitted s
   \<and> emitted (snd (sellAsset e sreq s)) = emitted s
   \<and> emitPortfolioUpdate portfolioId s = s
   \<and> emitted demoState = []
   \<and> buyAsset demoEnv (demoBuy 5 20) demoState =
       (Success 200 \<lparr>r_asset = Some demoAsset, r_portfolio = demoPortfolio\<lparr>p_cash := 100\<rparr>,
                     r_transaction = demoBought\<rparr>, demoHeld)
   \<and> emitted demoHeld = []
   \<and> sellAsset demoEnv (demoSell ''k'' 2 25) demoHeld =
       (Success 200
          \<lparr>r_asset = Some (demoAsset\<lparr>a_quantity := 3, a_currentPrice := 25\<rparr>),
           r_portfolio = demoPortfolio\<lparr>p_cash := 150\<rparr>,
           r_transaction = demoSold\<rparr>, demoSoldPart)
   \<and> emitted demoSoldPart = []
   \<and> emitted (emitPortfolioUpdate ''p1'' demoHeld) = []"
  by (simp add: buyAsset_emitted sellAsset_emitted emitPortfolioUpdate_silent
        demo_buy demo_sell_part)
     (simp add: demo_defs)

section \<open>Batches with failing lookups\<close>



section \<open>Rejected trades\<close>

text \<open>
  C2. A buy that reaches the funds check with the portfolio's cash below price times
  quantity gets the 400 response \<open>Insufficient cash in portfolio\<close> and changes no
  portfolio, holding or transaction row (the only write there can have been is the price
  cache, and none at all when the request carried a price). A sell of more than the
  holding's quantity gets the 400 response \<open>Insufficient asset quantity\<close> and leaves the
  whole state as it was.
\<close>

theorem insufficient_rejected:
  "(truthyText (b_user req) = Some userId \<and> truthyText (b_symbol req) = Some symbol
      \<and> truthyText (b_type req) = Some ty \<and> positiveQuantity (b_quantity req) = Some quantity
      \<and> portfolio_findFirst (b_portfolioId req) userId s = Some portfolio
      \<and> resolvePrice e (b_price req) symbol s = (Inr price, s1)
      \<and> p_cash portfolio < price * quantity
    \<longrightarrow> buyAsset e req s = (Failure 400 ''Insufficient cash in portfolio'', s1)
        \<and> portfolios s1 = portfolios s \<and> assets s1 = assets s
        \<and> transactions s1 = transactions s
        \<and> (truthyNumber (b_price req) \<noteq> None \<longrightarrow> s1 = s))
   \<and> (truthyText (s_user sreq) = Some sellerId
      \<and> positiveQuantity (s_quantity sreq) = Some sold
      \<and> portfolio_findFirst (s_portfolioId sreq) sellerId s = Some owned
      \<and> asset_findFirst_id (s_assetId sreq) (s_portfolioId sreq) s = Some asset
      \<and> a_quantity asset < sold
    \<longrightarrow> sellAsset e sreq s = (Failure 400 ''Insufficient asset quantity'', s))"
proof (intro conjI impI)
  assume h: "truthyText (b_user req) = Some userId \<and> truthyText (b_symbol req) = Some symbol
      \<and> truthyText (b_type req) = Some ty \<and> positiveQuantity (b_quantity req) = Some quantity
      \<and> portfolio_findFirst (b_portfolioId req) userId s = Some portfolio
      \<and> resolvePrice e (b_price req) symbol s = (Inr price, s1)
      \<and> p_cash portfolio < price * quantity"
  then show "buyAsset e req s = (Failure 400 ''Insufficient cash in portfolio'', s1)"
    by (simp add: buyAsset_def)
  from h have s1: "s1 = snd (resolvePrice e (b_price req) symbol s)" by simp
  show "portfolios s1 = portfolios s" "assets s1 = assets s" "transactions s1 = transactions s"
    by (simp_all add: s1 resolvePrice_tables)
  show "s1 = s" if "truthyNumber (b_price req) \<noteq> None"
    using that h by (auto simp: resolvePrice_def)
next
  assume "truthyText (s_user sreq) = Some sellerId
      \<and> positiveQuantity (s_quantity sreq) = Some sold
      \<and> portfolio_findFirst (s_portfolioId sreq) sellerId s = Some owned
      \<and> asset_findFirst_id (s_assetId sreq) (s_portfolioId sreq) s = Some asset
      \<and> a_quantity asset < sold"
  then show "sellAsset e sreq s = (Failure 400 ''Insufficient asset quantity'', s)"
    by (simp add: sellAsset_def)
qed

theorem insufficient_rejected_witness:
  "(truthyText (b_user (demoBuy 15 20)) = Some ''u1''
      \<and> truthyText (b_symbol (demoBuy 15 20)) = Some ''XYZ''
      \<and> truthyText (b_type (demoBuy 15 20)) = Some ''STOCK''
      \<and> positiveQuantity (b_quantity (demoBuy 15 20)) = Some 15
      \<and> portfolio_findFirst (b_portfolioId (demoBuy 15 20)) ''u1'' demoHeld
          = Some (demoPortfolio\<lparr>p_cash := 100\<rparr>)
      \<and> resolvePrice demoEnv (b_price (demoBuy 15 20)) ''XYZ'' demoHeld = (Inr 20, demoHeld)
      \<and> p_cash (demoPortfolio\<lparr>p_cash := 100\<rparr>) < 20 * 15)
   \<and> buyAsset demoEnv (demoBuy 15 20) demoHeld
       = (Failure 400 ''Insufficient cash in portfolio'', demoHeld)
   \<and> (truthyText (s_user (demoSell ''k'' 6 25)) = Some ''u1''
      \<and> positiveQuantity (s_quantity (demoSell ''k'' 6 25)) = Some 6
      \<and> portfolio_findFirst (s_portfolioId (demoSell ''k'' 6 25)) ''u1'' demoHeld
          = Some (demoPortfolio\<lparr>p_cash := 100\<rparr>)
      \<and> asset_findFirst_id (s_assetId (demoSell ''k'' 6 25)) (s_portfolioId (demoSell ''k'' 6 25))
            demoHeld = Some demoAsset
      \<and> a_quantity demoAsset < 6)
   \<and> sellAsset demoEnv (demoSell ''k'' 6 25) demoHeld
       = (Failure 400 ''Insufficient asset quantity'', demoHeld)"
proof -
  have h1: "truthyText (b_user (demoBuy 15 20)) = Some ''u1''
      \<and> truthyText (b_symbol (demoBuy 15 20)) = Some ''XYZ''
      \<and> truthyText (b_type (demoBuy 15 20)) = Some ''STOCK''
      \<and> positiveQuantity (b_quantity (demoBuy 15 20)) = Some 15
      \<and> portfolio_findFirst (b_portfolioId (demoBuy 15 20)) ''u1'' demoHeld
          = Some (demoPortfolio\<lparr>p_cash := 100\<rparr>)
      \<and> resolvePrice demoEnv (b_price (demoBuy 15 20)) ''XYZ'' demoHeld = (Inr 20, demoHeld)
      \<and> p_cash (demoPortfolio\<lparr>p_cash := 100\<rparr>) < 20 * 15"
    by (simp add: demo_defs store_defs request_defs)
  have h2: "truthyText (s_user (demoSell ''k'' 6 25)) = Some ''u1''
      \<and> positiveQuantity (s_quantity (demoSell ''k'' 6 25)) = Some 6
      \<and> portfolio_findFirst (s_portfolioId (demoSell ''k'' 6 25)) ''u1'' demoHeld
          = Some (demoPortfolio\<lparr>p_cash := 100\<rparr>)
      \<and> asset_findFirst_id (s_assetId (demoSell ''k'' 6 25)) (s_portfolioId (demoSell ''k'' 6 25))
            demoHeld = Some demoAsset
      \<and> a_quantity demoAsset < 6"
    by (simp add: demo_defs store_defs request_defs)
  from insufficient_rejected [THEN conjunct1, THEN mp, OF h1]
       insufficient_rejected [THEN conjunct2, THEN mp, OF h2] h1 h2
  show ?thesis by simp
qed

section \<open>An explicit price of 0\<close>

text \<open>
  C10. A buy or a sell whose body carries \<open>price: 0\<close> is the same operation as one whose
  body carries no price: response and resulting state are equal, and the price is asked
  of the oracle. For a buy that passes the checks before the price, with \<open>price: 0\<close>:
  when the oracle throws, the answer is the 400 of the price lookup; when the oracle
  answers p and the cash is below p times the quantity, the answer is the 400 of the
  funds check, although the cost at price 0 would be 0; when the oracle answers p, the
  cash covers p times the quantity and the symbol is not held yet, the buy is accepted at
  price p, recorded with price p and total amount p times the quantity. For a sell that
  passes the checks before the price, with \<open>price: 0\<close>: when the oracle throws, the answer
  is the 400 of the price lookup; when the oracle answers p and a part of the holding is
  sold, the sale is accepted at price p, credits p times the quantity and is recorded
  with price p. The state each time is the one the oracle's lookup left, with the effect
  of the trade on it.
\<close>

theorem price_zero_as_absent:
  "buyAsset e (req\<lparr>b_price := Some 0\<rparr>) s = buyAsset e (req\<lparr>b_price := None\<rparr>) s
   \<and> sellAsset e (sreq\<lparr>s_price := Some 0\<rparr>) s = sellAsset e (sreq\<lparr>s_price := None\<rparr>) s
   \<and> resolvePrice e (Some 0) symbol s = getMarketPrice e symbol s
   \<and> (b_price req = Some 0
      \<and> truthyText (b_user req) = Some userId \<and> truthyText (b_symbol req) = Some symbol
      \<and> truthyText (b_type req) = Some ty \<and> positiveQuantity (b_quantity req) = Some q
      \<and> portfolio_findFirst (b_portfolioId req) userId s = Some portfolio
      \<and> getMarketPrice e symbol s = (Inl x, s1)
     \<longrightarrow> buyAsset e req s =
           (Failure 400 ''Could not retrieve market price. Please provide a price.'', s1))
   \<and> (b_price req = Some 0
      \<and> truthyText (b_user req) = Some userId \<and> truthyText (b_symbol req) = Some symbol
      \<and> truthyText (b_type req) = Some ty \<and> positiveQuantity (b_quantity req) = Some q
      \<and> portfolio_findFirst (b_portfolioId req) userId s = Some portfolio
      \<and> getMarketPrice e symbol s = (Inr p, s1)
      \<and> p_cash portfolio < p * q
     \<longrightarrow> buyAsset e req s = (Failure 400 ''Insufficient cash in portfolio'', s1))
   \<and> (b_price req = Some 0
      \<and> truthyText (b_user req) = Some userId \<and> truthyText (b_symbol req) = Some symbol
      \<and> truthyText (b_type req) = Some ty \<and> assetTypeOf ty = Some kind
      \<and> positiveQuantity (b_quantity req) = Some q
      \<and> portfolio_findFirst (b_portfolioId req) userId s = Some portfolio
      \<and> distinct (map p_id (portfolios s))
      \<and> getMarketPrice e symbol s = (Inr p, s1)
      \<and> p * q \<le> p_cash portfolio
      \<and> asset_findFirst_symbol (b_portfolioId req) symbol s = None
     \<longrightarrow> (\<exists>a t s2.
            buyAsset e req s =
              (Success 200 \<lparr>r_asset = Some a,
                            r_portfolio = portfolio\<lparr>p_cash := p_cash portfolio - p * q\<rparr>,
                            r_transaction = t\<rparr>, s2)
          \<and> portfolios s2 = updateRows (\<lambda>r. p_id r = b_portfolioId req)
                               (\<lambda>r. r\<lparr>p_cash := p_cash r - p * q\<rparr>) (portfolios s)
          \<and> assets s2 = assets s @ [a] \<and> transactions s2 = transactions s @ [t]
          \<and> marketData s2 = marketData s1
          \<and> a_symbol a = symbol \<and> a_quantity a = q
          \<and> a_purchasePrice a = p \<and> a_currentPrice a = p
          \<and> t_type t = BUY \<and> t_quantity t = q \<and> t_price t = p \<and> t_totalAmount t = p * q))
   \<and> (s_price sreq = Some 0
      \<and> truthyText (s_user sreq) = Some sellerId
      \<and> positiveQuantity (s_quantity sreq) = Some sold
      \<and> portfolio_findFirst (s_portfolioId sreq) sellerId s = Some owned
      \<and> asset_findFirst_id (s_assetId sreq) (s_portfolioId sreq) s = Some held
      \<and> sold \<le> a_quantity held
      \<and> getMarketPrice e (a_symbol held) s = (Inl x, s1)
     \<longrightarrow> sellAsset e sreq s =
           (Failure 400 ''Could not retrieve market price. Please provide a price.'', s1))
   \<and> (s_price sreq = Some 0
      \<and> truthyText (s_user sreq) = Some sellerId
      \<and> positiveQuantity (s_quantity sreq) = Some sold
      \<and> portfolio_findFirst (s_portfolioId sreq) sellerId s = Some owned
      \<and> asset_findFirst_id (s_assetId sreq) (s_portfolioId sreq) s = Some held
      \<and> sold < a_quantity held
      \<and> distinct (map p_id (portfolios s)) \<and> distinct (map a_id (assets s))
      \<and> getMarketPrice e (a_symbol held) s = (Inr p, s1)
     \<longrightarrow> (\<exists>t s2.
            sellAsset e sreq s =
              (Success 200
                 \<lparr>r_asset = Some (held\<lparr>a_quantity := a_quantity held - sold,
                                         a_currentPrice := p\<rparr>),
                  r_portfolio = owned\<lparr>p_cash := p_cash owned + p * sold\<rparr>,
                  r_transaction = t\<rparr>, s2)
          \<and> portfolios s2 = updateRows (\<lambda>r. p_id r = s_portfolioId sreq)
                               (\<lambda>r. r\<lparr>p_cash := p_cash r + p * sold\<rparr>) (portfolios s)
          \<and> assets s2 = updateRows (\<lambda>r. a_id r = s_assetId sreq)
                           (\<lambda>r. r\<lparr>a_quantity := a_quantity r - sold, a_currentPrice := p\<rparr>)
                           (assets s)
          \<and> transactions s2 = transactions s @ [t]
          \<and> marketData s2 = marketData s1
          \<and> t_type t = SELL \<and> t_quantity t = sold \<and> t_price t = p
          \<and> t_totalAmount t = p * sold))"
proof (intro conjI impI)
  show "buyAsset e (req\<lparr>b_price := Some 0\<rparr>) s = buyAsset e (req\<lparr>b_price := None\<rparr>) s"
    by (simp add: buyAsset_def resolvePrice_def
          cong: option.case_cong prod.case_cong sum.case_cong if_cong)
next
  show "sellAsset e (sreq\<lparr>s_price := Some 0\<rparr>) s = sellAsset e (sreq\<lparr>s_price := None\<rparr>) s"
    by (simp add: sellAsset_def resolvePrice_def
          cong: option.case_cong prod.case_cong sum.case_cong if_cong)
next
  show "resolvePrice e (Some 0) symbol s = getMarketPrice e symbol s"
    by (simp add: resolvePrice_def)
next
  assume "b_price req = Some 0
      \<and> truthyText (b_user req) = Some userId \<and> truthyText (b_symbol req) = Some symbol
      \<and> truthyText (b_type req) = Some ty \<and> positiveQuantity (b_quantity req) = Some q
      \<and> portfolio_findFirst (b_portfolioId req) userId s = Some portfolio
      \<and> getMarketPrice e symbol s = (Inl x, s1)"
  then show "buyAsset e req s =
           (Failure 400 ''Could not retrieve market price. Please provide a price.'', s1)"
    by (simp add: buyAsset_def resolvePrice_def)
next
  assume "b_price req = Some 0
      \<and> truthyText (b_user req) = Some userId \<and> truthyText (b_symbol req) = Some symbol
      \<and> truthyText (b_type req) = Some ty \<and> positiveQuantity (b_quantity req) = Some q
      \<and> portfolio_findFirst (b_portfolioId req) userId s = Some portfolio
      \<and> getMarketPrice e symbol s = (Inr p, s1)
      \<and> p_cash portfolio < p * q"
  then show "buyAsset e req s = (Failure 400 ''Insufficient cash in portfolio'', s1)"
    by (simp add: buyAsset_def resolvePrice_def)
next
  assume h: "b_price req = Some 0
      \<and> truthyText (b_user req) = Some userId \<and> truthyText (b_symbol req) = Some symbol
      \<and> truthyText (b_type req) = Some ty \<and> assetTypeOf ty = Some kind
      \<and> positiveQuantity (b_quantity req) = Some q
      \<and> portfolio_findFirst (b_portfolioId req) userId s = Some portfolio
      \<and> distinct (map p_id (portfolios s))
      \<and> getMarketPrice e symbol s = (Inr p, s1)
      \<and> p * q \<le> p_cash portfolio
      \<and> asset_findFirst_symbol (b_portfolioId req) symbol s = None"
  then have asked: "resolvePrice e (b_price req) symbol s = (Inr p, s1)"
    by (simp add: resolvePrice_def)
  have run: "buyAsset e req s =
     (Success 200
        \<lparr>r_asset = Some
           \<lparr>a_id = uuid e (minted s1), a_portfolioId = b_portfolioId req, a_symbol = symbol,
            a_name = orElse (b_name req) symbol, a_type = kind, a_quantity = q,
            a_purchasePrice = p, a_currentPrice = p\<rparr>,
         r_portfolio = portfolio\<lparr>p_cash := p_cash portfolio - p * q\<rparr>,
         r_transaction =
           \<lparr>t_id = uuid e (Suc (minted s1)), t_userId = userId,
            t_portfolioId = b_portfolioId req,
            t_assetId = Some (uuid e (minted s1)), t_type = BUY, t_quantity = q,
            t_price = p, t_totalAmount = p * q, t_timestamp = now e\<rparr>\<rparr>,
      s1\<lparr>assets := assets s @
           [\<lparr>a_id = uuid e (minted s1), a_portfolioId = b_portfolioId req, a_symbol = symbol,
             a_name = orElse (b_name req) symbol, a_type = kind, a_quantity = q,
             a_purchasePrice = p, a_currentPrice = p\<rparr>],
         minted := Suc (Suc (minted s1)),
         portfolios := updateRows (\<lambda>r. p_id r = b_portfolioId req)
                         (\<lambda>p'. p'\<lparr>p_cash := p_cash p' - p * q\<rparr>) (portfolios s),
         transactions := transactions s @
           [\<lparr>t_id = uuid e (Suc (minted s1)), t_userId = userId,
             t_portfolioId = b_portfolioId req,
             t_assetId = Some (uuid e (minted s1)), t_type = BUY, t_quantity = q,
             t_price = p, t_totalAmount = p * q, t_timestamp = now e\<rparr>]\<rparr>)"
    using h asked by (intro buy_new_holding [where ty = ty]) simp_all
  show "\<exists>a t s2.
            buyAsset e req s =
              (Success 200 \<lparr>r_asset = Some a,
                            r_portfolio = portfolio\<lparr>p_cash := p_cash portfolio - p * q\<rparr>,
                            r_transaction = t\<rparr>, s2)
          \<and> portfolios s2 = updateRows (\<lambda>r. p_id r = b_portfolioId req)
                               (\<lambda>r. r\<lparr>p_cash := p_cash r - p * q\<rparr>) (portfolios s)
          \<and> assets s2 = assets s @ [a] \<and> transactions s2 = transactions s @ [t]
          \<and> marketData s2 = marketData s1
          \<and> a_symbol a = symbol \<and> a_quantity a = q
          \<and> a_purchasePrice a = p \<and> a_currentPrice a = p
          \<and> t_type t = BUY \<and> t_quantity t = q \<and> t_price t = p \<and> t_totalAmount t = p * q"
    unfolding run by simp
next
  assume "s_price sreq = Some 0
      \<and> truthyText (s_user sreq) = Some sellerId
      \<and> positiveQuantity (s_quantity sreq) = Some sold
      \<and> portfolio_findFirst (s_portfolioId sreq) sellerId s = Some owned
      \<and> asset_findFirst_id (s_assetId sreq) (s_portfolioId sreq) s = Some held
      \<and> sold \<le> a_quantity held
      \<and> getMarketPrice e (a_symbol held) s = (Inl x, s1)"
  then show "sellAsset e sreq s =
           (Failure 400 ''Could not retrieve market price. Please provide a price.'', s1)"
    by (simp add: sellAsset_def resolvePrice_def not_less [symmetric])
next
  assume h: "s_price sreq = Some 0
      \<and> truthyText (s_user sreq) = Some sellerId
      \<and> positiveQuantity (s_quantity sreq) = Some sold
      \<and> portfolio_findFirst (s_portfolioId sreq) sellerId s = Some owned
      \<and> asset_findFirst_id (s_assetId sreq) (s_portfolioId sreq) s = Some held
      \<and> sold < a_quantity held
      \<and> distinct (map p_id (portfolios s)) \<and> distinct (map a_id (assets s))
      \<and> getMarketPrice e (a_symbol held) s = (Inr p, s1)"
  then have asked: "resolvePrice e (s_price sreq) (a_symbol held) s = (Inr p, s1)"
    by (simp add: resolvePrice_def)
  from h have "truthyText (s_user sreq) = Some sellerId"
    "positiveQuantity (s_quantity sreq) = Some sold"
    "portfolio_findFirst (s_portfolioId sreq) sellerId s = Some owned"
    "asset_findFirst_id (s_assetId sreq) (s_portfolioId sreq) s = Some held"
    "distinct (map p_id (portfolios s))" "distinct (map a_id (assets s))"
    "sold < a_quantity held"
    by simp_all
  note run = sell_part_effect [OF this(1-6) asked this(7)]
  show "\<exists>t s2.
            sellAsset e sreq s =
              (Success 200
                 \<lparr>r_asset = Some (held\<lparr>a_quantity := a_quantity held - sold,
                                         a_currentPrice := p\<rparr>),
                  r_portfolio = owned\<lparr>p_cash := p_cash owned + p * sold\<rparr>,
                  r_transaction = t\<rparr>, s2)
          \<and> portfolios s2 = updateRows (\<lambda>r. p_id r = s_portfolioId sreq)
                               (\<lambda>r. r\<lparr>p_cash := p_cash r + p * sold\<rparr>) (portfolios s)
          \<and> assets s2 = updateRows (\<lambda>r. a_id r = s_assetId sreq)
                           (\<lambda>r. r\<lparr>a_quantity := a_quantity r - sold, a_currentPrice := p\<rparr>)
                           (assets s)
          \<and> transactions s2 = transactions s @ [t]
          \<and> marketData s2 = marketData s1
          \<and> t_type t = SELL \<and> t_quantity t = sold \<and> t_price t = p
          \<and> t_totalAmount t = p * sold"
    unfolding run by simp
qed

theorem price_zero_as_absent_witness:
  "b_price (demoBuy 2 0) = Some 0 \<and> s_price (demoSell ''k'' 2 0) = Some 0
   \<and> getMarketPrice demoEnv ''BAD'' demoState = (Inl AxiosError, demoAsked ''BAD'' [] demoState)
   \<and> buyAsset demoEnv ((demoBuy 2 0)\<lparr>b_symbol := Some ''BAD''\<rparr>) demoState =
       (Failure 400 ''Could not retrieve market price. Please provide a price.'',
        demoAsked ''BAD'' [] demoState)
   \<and> getMarketPrice demoEnv ''XYZ'' demoState
       = (Inr 25, demoAsked ''XYZ'' [demoFresh ''k''] demoState)
   \<and> p_cash demoPortfolio < 25 * 10
   \<and> buyAsset demoEnv (demoBuy 10 0) demoState =
       (Failure 400 ''Insufficient cash in portfolio'',
        demoAsked ''XYZ'' [demoFresh ''k''] demoState)
   \<and> 25 * 2 \<le> p_cash demoPortfolio
   \<and> fst (buyAsset demoEnv (demoBuy 2 0) demoState) =
       Success 200
         \<lparr>r_asset = Some (demoAsset\<lparr>a_id := ''ki'', a_quantity := 2, a_purchasePrice := 25,
                                     a_currentPrice := 25\<rparr>),
          r_portfolio = demoPortfolio\<lparr>p_cash := 150\<rparr>,
          r_transaction = demoBought\<lparr>t_id := ''kii'', t_assetId := Some ''ki'', t_quantity := 2,
                                      t_price := 25, t_totalAmount := 50\<rparr>\<rparr>
   \<and> asset_findFirst_id ''b'' ''p1'' demoTwo = Some demoBadAsset
   \<and> getMarketPrice demoEnv (a_symbol demoBadAsset) demoTwo
       = (Inl AxiosError, demoAsked ''BAD'' [] demoTwo)
   \<and> sellAsset demoEnv (demoSell ''b'' 1 0) demoTwo =
       (Failure 400 ''Could not retrieve market price. Please provide a price.'',
        demoAsked ''BAD'' [] demoTwo)
   \<and> asset_findFirst_id ''k'' ''p1'' demoHeld = Some demoAsset
   \<and> getMarketPrice demoEnv (a_symbol demoAsset) demoHeld
       = (Inr 25, demoAsked ''XYZ'' [demoFresh ''kii''] demoHeld)
   \<and> fst (sellAsset demoEnv (demoSell ''k'' 2 0) demoHeld) =
       Success 200
         \<lparr>r_asset = Some (demoAsset\<lparr>a_quantity := 3, a_currentPrice := 25\<rparr>),
          r_portfolio = demoPortfolio\<lparr>p_cash := 150\<rparr>,
          r_transaction = demoSold\<lparr>t_id := ''kiii''\<rparr>\<rparr>"
proof -
  have h4: "b_price ((demoBuy 2 0)\<lparr>b_symbol := Some ''BAD''\<rparr>) = Some 0
      \<and> truthyText (b_user ((demoBuy 2 0)\<lparr>b_symbol := Some ''BAD''\<rparr>)) = Some ''u1''
      \<and> truthyText (b_symbol ((demoBuy 2 0)\<lparr>b_symbol := Some ''BAD''\<rparr>)) = Some ''BAD''
      \<and> truthyText (b_type ((demoBuy 2 0)\<lparr>b_symbol := Some ''BAD''\<rparr>)) = Some ''STOCK''
      \<and> positiveQuantity (b_quantity ((demoBuy 2 0)\<lparr>b_symbol := Some ''BAD''\<rparr>)) = Some 2
      \<and> portfolio_findFirst (b_portfolioId ((demoBuy 2 0)\<lparr>b_symbol := Some ''BAD''\<rparr>)) ''u1''
            demoState = Some demoPortfolio
      \<and> getMarketPrice demoEnv ''BAD'' demoState
          = (Inl AxiosError, demoAsked ''BAD'' [] demoState)"
    by (simp add: getMarketPrice_def demoAsked_def demo_defs store_defs request_defs Let_def)
  have h5: "b_price (demoBuy 10 0) = Some 0
      \<and> truthyText (b_user (demoBuy 10 0)) = Some ''u1''
      \<and> truthyText (b_symbol (demoBuy 10 0)) = Some ''XYZ''
      \<and> truthyText (b_type (demoBuy 10 0)) = Some ''STOCK''
      \<and> positiveQuantity (b_quantity (demoBuy 10 0)) = Some 10
      \<and> portfolio_findFirst (b_portfolioId (demoBuy 10 0)) ''u1'' demoState = Some demoPortfolio
      \<and> getMarketPrice demoEnv ''XYZ'' demoState
          = (Inr 25, demoAsked ''XYZ'' [demoFresh ''k''] demoState)
      \<and> p_cash demoPortfolio < 25 * 10"
    by (simp add: getMarketPrice_def demoAsked_def demoFresh_def demo_defs store_defs
          request_defs Let_def)
  have h6: "b_price (demoBuy 2 0) = Some 0
      \<and> truthyText (b_user (demoBuy 2 0)) = Some ''u1''
      \<and> truthyText (b_symbol (demoBuy 2 0)) = Some ''XYZ''
      \<and> truthyText (b_type (demoBuy 2 0)) = Some ''STOCK'' \<and> assetTypeOf ''STOCK'' = Some STOCK
      \<and> positiveQuantity (b_quantity (demoBuy 2 0)) = Some 2
      \<and> portfolio_findFirst (b_portfolioId (demoBuy 2 0)) ''u1'' demoState = Some demoPortfolio
      \<and> distinct (map p_id (portfolios demoState))
      \<and> getMarketPrice demoEnv ''XYZ'' demoState
          = (Inr 25, demoAsked ''XYZ'' [demoFresh ''k''] demoState)
      \<and> 25 * 2 \<le> p_cash demoPortfolio
      \<and> asset_findFirst_symbol (b_portfolioId (demoBuy 2 0)) ''XYZ'' demoState = None"
    by (simp add: getMarketPrice_def demoAsked_def demoFresh_def demo_defs store_defs
          request_defs Let_def)
  have h7: "s_price (demoSell ''b'' 1 0) = Some 0
      \<and> truthyText (s_user (demoSell ''b'' 1 0)) = Some ''u1''
      \<and> positiveQuantity (s_quantity (demoSell ''b'' 1 0)) = Some 1
      \<and> portfolio_findFirst (s_portfolioId (demoSell ''b'' 1 0)) ''u1'' demoTwo
          = Some (demoPortfolio\<lparr>p_cash := 100\<rparr>)
      \<and> asset_findFirst_id (s_assetId (demoSell ''b'' 1 0)) (s_portfolioId (demoSell ''b'' 1 0))
            demoTwo = Some demoBadAsset
      \<and> 1 \<le> a_quantity demoBadAsset
      \<and> getMarketPrice demoEnv (a_symbol demoBadAsset) demoTwo
          = (Inl AxiosError, demoAsked ''BAD'' [] demoTwo)"
    by (simp add: getMarketPrice_def demoAsked_def demo_defs store_defs request_defs Let_def)
  have h8: "s_price (demoSell ''k'' 2 0) = Some 0
      \<and> truthyText (s_user (demoSell ''k'' 2 0)) = Some ''u1''
      \<and> positiveQuantity (s_quantity (demoSell ''k'' 2 0)) = Some 2
      \<and> portfolio_findFirst (s_portfolioId (demoSell ''k'' 2 0)) ''u1'' demoHeld
          = Some (demoPortfolio\<lparr>p_cash := 100\<rparr>)
      \<and> asset_findFirst_id (s_assetId (demoSell ''k'' 2 0)) (s_portfolioId (demoSell ''k'' 2 0))
            demoHeld = Some demoAsset
      \<and> 2 < a_quantity demoAsset
      \<and> distinct (map p_id (portfolios demoHeld)) \<and> distinct (map a_id (assets demoHeld))
      \<and> getMarketPrice demoEnv (a_symbol demoAsset) demoHeld
          = (Inr 25, demoAsked ''XYZ'' [demoFresh ''kii''] demoHeld)"
    by (simp add: getMarketPrice_def demoAsked_def demoFresh_def demo_defs store_defs
          request_defs Let_def eval_nat_numeral)
  note thrown =
    price_zero_as_absent [where e = demoEnv and s = demoState
      and req = "(demoBuy 2 0)\<lparr>b_symbol := Some ''BAD''\<rparr>",
      THEN conjunct2, THEN conjunct2, THEN conjunct2, THEN conjunct1, THEN mp, OF h4]
  note short =
    price_zero_as_absent [where e = demoEnv and s = demoState and req = "demoBuy 10 0",
      THEN conjunct2, THEN conjunct2, THEN conjunct2, THEN conjunct2, THEN conjunct1,
      THEN mp, OF h5]
  note bought =
    price_zero_as_absent [where e = demoEnv and s = demoState and req = "demoBuy 2 0",
      THEN conjunct2, THEN conjunct2, THEN conjunct2, THEN conjunct2, THEN conjunct2,
      THEN conjunct1, THEN mp, OF h6]
  note unsold =
    price_zero_as_absent [where e = demoEnv and s = demoTwo and sreq = "demoSell ''b'' 1 0",
      THEN conjunct2, THEN conjunct2, THEN conjunct2, THEN conjunct2, THEN conjunct2,
      THEN conjunct2, THEN conjunct1, THEN mp, OF h7]
  note sold =
    price_zero_as_absent [where e = demoEnv and s = demoHeld and sreq = "demoSell ''k'' 2 0",
      THEN conjunct2, THEN conjunct2, THEN conjunct2, THEN conjunct2, THEN conjunct2,
      THEN conjunct2, THEN conjunct2, THEN mp, OF h8]
  from bought
  have buy: "fst (buyAsset demoEnv (demoBuy 2 0) demoState) =
       Success 200
         \<lparr>r_asset = Some (demoAsset\<lparr>a_id := ''ki'', a_quantity := 2, a_purchasePrice := 25,
                                     a_currentPrice := 25\<rparr>),
          r_portfolio = demoPortfolio\<lparr>p_cash := 150\<rparr>,
          r_transaction = demoBought\<lparr>t_id := ''kii'', t_assetId := Some ''ki'', t_quantity := 2,
                                      t_price := 25, t_totalAmount := 50\<rparr>\<rparr>"
    by (simp add: buyAsset_def buyTransaction_def getMarketPrice_def demo_defs store_defs
          request_defs Let_def eval_nat_numeral)
  from sold
  have sell: "fst (sellAsset demoEnv (demoSell ''k'' 2 0) demoHeld) =
       Success 200
         \<lparr>r_asset = Some (demoAsset\<lparr>a_quantity := 3, a_currentPrice := 25\<rparr>),
          r_portfolio = demoPortfolio\<lparr>p_cash := 150\<rparr>,
          r_transaction = demoSold\<lparr>t_id := ''kiii''\<rparr>\<rparr>"
    by (simp add: sellAsset_def sellTransaction_def getMarketPrice_def demo_defs store_defs
          request_defs Let_def eval_nat_numeral)
  have found: "asset_findFirst_id ''b'' ''p1'' demoTwo = Some demoBadAsset"
    "asset_findFirst_id ''k'' ''p1'' demoHeld = Some demoAsset"
    by (simp_all add: demo_defs store_defs)
  show ?thesis
    using h4 h5 h6 h7 h8 thrown short unsold buy sell found by simp
qed

end
